theory Spec2Isabelle
  imports Complex_Main
begin

section \<open>Python values shared by the modules\<close>

text \<open>
  Exceptions of the Python source are values of \<open>error\<close>; a fallible operation returns
  \<open>error + 'a\<close> with \<open>Inl\<close> for the exception. A Python \<open>float\<close> is the real number it
  stands for, and the arithmetic on floats is a parameter of the model (\<open>float_ops\<close>
  below), so no result is taken to be exact. Python \<open>int\<close> is \<open>int\<close>, \<open>str\<close> is \<open>string\<close> with
  one \<open>char\<close> per character (texts are taken to be ASCII; the two non-ASCII literals of
  \<open>tools.py\<close> are given by their UTF-8 bytes).
\<close>

datatype error =
    ValidationError
  | IntegrityError
  | OperationalError
  | ZeroDivisionError
  | IndexError
  | KeyError
  | ValueError
  | GraphRecursionError

definition lower_char :: "char \<Rightarrow> char" where
  "lower_char c =
     (case map_of (zip ''ABCDEFGHIJKLMNOPQRSTUVWXYZ'' ''abcdefghijklmnopqrstuvwxyz'') c of
        None \<Rightarrow> c
      | Some l \<Rightarrow> l)"

definition lower :: "string \<Rightarrow> string" where
  "lower s = map lower_char s"

text \<open>\<open>s.replace(" ", "_")\<close>: every space becomes an underscore.\<close>

definition replace_space :: "string \<Rightarrow> string" where
  "replace_space s = map (\<lambda>c. if c = CHR '' '' then CHR ''_'' else c) s"

text \<open>
  The expression \<open>topic.lower().replace(" ", "_")\<close>, written out at four places of the
  source (\<open>retrieve_content\<close>, \<open>get_student_progress\<close>, \<open>update_student_progress\<close> where it
  is bound to \<open>topic_key\<close>, and \<open>build_metadata\<close>).
\<close>

definition topic_key :: "string \<Rightarrow> string" where
  "topic_key topic = replace_space (lower topic)"

text \<open>\<open>str(n)\<close> for an integer: its decimal digits, with a minus sign when negative.\<close>

function str_nat :: "nat \<Rightarrow> string" where
  "str_nat n =
     (if n < 10 then [''0123456789'' ! n]
      else str_nat (n div 10) @ [''0123456789'' ! (n mod 10)])"
  by pat_completeness auto
termination
  by (relation "measure id") auto

declare str_nat.simps [simp del]

definition str_int :: "int \<Rightarrow> string" where
  "str_int i = (if i < 0 then CHR ''-'' # str_nat (nat (- i)) else str_nat (nat i))"

text \<open>
  Float arithmetic: the product, the sum and the quotient of two floats as the machine
  rounds them, and the conversion of an \<open>int\<close> operand to a float.
\<close>

record float_ops =
  fl_mul :: "real \<Rightarrow> real \<Rightarrow> real"
  fl_add :: "real \<Rightarrow> real \<Rightarrow> real"
  fl_div :: "real \<Rightarrow> real \<Rightarrow> real"
  fl_of_int :: "int \<Rightarrow> real"

text \<open>
  The standard model of rounded arithmetic, as an assumption on \<open>float_ops\<close>: where the
  exact result is at most \<open>bound\<close> in magnitude (no overflow), the rounded result is
  within the relative error \<open>u\<close> and the absolute error \<open>eta\<close> of it, and integers up to
  \<open>2 ^ 53\<close> convert exactly. IEEE doubles with rounding to nearest have \<open>u = 2 ^ -53\<close>,
  \<open>eta = 2 ^ -1075\<close> (results in the subnormal range) and \<open>bound\<close> the largest double.
\<close>

definition float_model :: "real \<Rightarrow> real \<Rightarrow> real \<Rightarrow> float_ops \<Rightarrow> bool" where
  "float_model u eta bound fl \<longleftrightarrow>
     0 \<le> u \<and> 0 \<le> eta \<and>
     (\<forall>x y. \<bar>x * y\<bar> \<le> bound \<longrightarrow> \<bar>fl_mul fl x y - x * y\<bar> \<le> u * \<bar>x * y\<bar> + eta) \<and>
     (\<forall>x y. \<bar>x + y\<bar> \<le> bound \<longrightarrow> \<bar>fl_add fl x y - (x + y)\<bar> \<le> u * \<bar>x + y\<bar> + eta) \<and>
     (\<forall>x y. y \<noteq> 0 \<and> \<bar>x / y\<bar> \<le> bound \<longrightarrow> \<bar>fl_div fl x y - x / y\<bar> \<le> u * \<bar>x / y\<bar> + eta) \<and>
     (\<forall>k. \<bar>k\<bar> \<le> 2 ^ 53 \<longrightarrow> fl_of_int fl k = real_of_int k)"

text \<open>
  An arithmetic for the examples below: every result is rounded to the nearest multiple
  of \<open>1/1000\<close>, so it is within \<open>1/2000\<close> of the exact result.
\<close>

definition round3 :: "real \<Rightarrow> real" where
  "round3 x = real_of_int \<lfloor>x * 1000 + 1 / 2\<rfloor> / 1000"

definition decimal3 :: float_ops where
  "decimal3 =
     \<lparr>fl_mul = (\<lambda>x y. round3 (x * y)), fl_add = (\<lambda>x y. round3 (x + y)),
      fl_div = (\<lambda>x y. round3 (x / y)), fl_of_int = real_of_int\<rparr>"

definition quote :: string where
  "quote = [CHR 0x27]"

definition newline :: string where
  "newline = [CHR 0x0A]"

section \<open>The mastery store (\<open>tools.py\<close>)\<close>

text \<open>
  The two SQLite tables of \<open>_init_db\<close>. \<open>student_progress\<close> has the primary key
  \<open>(student_id, topic)\<close>, so it is a map from that pair to the other three columns;
  \<open>study_sessions\<close> is a list of rows in insertion order with the primary key
  \<open>session_id\<close>. Rows hold what the tools write: a \<open>REAL\<close> mastery, an \<open>INTEGER\<close> attempt
  count and a nullable \<open>last_studied\<close> text.
\<close>

record progress_row =
  mastery_score :: real
  attempts :: int
  last_studied :: "string option"

record session_row =
  session_id :: string
  session_student :: string
  session_topic :: string
  session_score :: real
  session_timestamp :: string

record database =
  student_progress :: "string \<times> string \<Rightarrow> progress_row option"
  study_sessions :: "session_row list"

definition empty_db :: database where
  "empty_db = \<lparr>student_progress = Map.empty, study_sessions = []\<rparr>"

text \<open>The SQL statements the tools send, with their parameters in the order of the source.\<close>

datatype statement =
    SelectProgress string string
  | UpdateProgress real int string string string
  | InsertProgress string string real int string
  | InsertSession string string string real string
  | Commit

text \<open>
  What a statement does to the tables inside the open transaction. An \<open>INSERT\<close> whose
  primary key is already present raises \<open>IntegrityError\<close>; an \<open>UPDATE\<close> changes the row
  its \<open>WHERE\<close> clause selects, if there is one.
\<close>

definition apply_statement :: "database \<Rightarrow> statement \<Rightarrow> error + database" where
  "apply_statement d st =
     (case st of
        SelectProgress sid t \<Rightarrow> Inr d
      | UpdateProgress m a ls sid t \<Rightarrow>
          (case student_progress d (sid, t) of
             None \<Rightarrow> Inr d
           | Some old \<Rightarrow>
               Inr (d\<lparr>student_progress := (student_progress d)((sid, t) \<mapsto>
                      \<lparr>mastery_score = m, attempts = a, last_studied = Some ls\<rparr>)\<rparr>))
      | InsertProgress sid t m a ls \<Rightarrow>
          (case student_progress d (sid, t) of
             Some old \<Rightarrow> Inl IntegrityError
           | None \<Rightarrow>
               Inr (d\<lparr>student_progress := (student_progress d)((sid, t) \<mapsto>
                      \<lparr>mastery_score = m, attempts = a, last_studied = Some ls\<rparr>)\<rparr>))
      | InsertSession sess sid t sc ts \<Rightarrow>
          (if sess \<in> set (map session_id (study_sessions d)) then Inl IntegrityError
           else Inr (d\<lparr>study_sessions := study_sessions d @
                      [\<lparr>session_id = sess, session_student = sid, session_topic = t,
                        session_score = sc, session_timestamp = ts\<rparr>]\<rparr>))
      | Commit \<Rightarrow> Inr d)"

text \<open>
  A connection of \<open>sqlite3.connect\<close>: the tables as the open transaction sees them, and
  the statements sent so far. \<open>execute\<close> sends one statement. The store may refuse any
  statement (a locked or unwritable file), which raises \<open>OperationalError\<close>; \<open>refuses\<close>
  says which statements it refuses.
\<close>

record connection =
  pending :: database
  sent :: "statement list"

definition connect :: "database \<Rightarrow> connection" where
  "connect d = \<lparr>pending = d, sent = []\<rparr>"

definition execute ::
  "(statement \<Rightarrow> bool) \<Rightarrow> connection \<Rightarrow> statement \<Rightarrow> connection \<times> error option" where
  "execute refuses conn st =
     (let conn' = conn\<lparr>sent := sent conn @ [st]\<rparr> in
      if refuses st then (conn', Some OperationalError)
      else (case apply_statement (pending conn) st of
              Inl e \<Rightarrow> (conn', Some e)
            | Inr d \<Rightarrow> (conn'\<lparr>pending := d\<rparr>, None)))"

text \<open>
  One run of a tool: the statements it sent, the tables as stored afterwards, and what
  it returned or raised. An exception leaves the function before \<open>conn.commit()\<close>, the
  connection is dropped with its transaction open and SQLite rolls it back: the stored
  tables are those of before the call. A connection closed without a commit stores
  nothing either.
\<close>

record tool_run =
  statements :: "statement list"
  stored :: database
  returned :: "error + string"

definition raised :: "database \<Rightarrow> connection \<Rightarrow> error \<Rightarrow> tool_run" where
  "raised d conn e = \<lparr>statements = sent conn, stored = d, returned = Inl e\<rparr>"

definition closed_uncommitted :: "database \<Rightarrow> connection \<Rightarrow> string \<Rightarrow> tool_run" where
  "closed_uncommitted d conn msg = \<lparr>statements = sent conn, stored = d, returned = Inr msg\<rparr>"

definition committed :: "connection \<Rightarrow> string \<Rightarrow> tool_run" where
  "committed conn msg = \<lparr>statements = sent conn, stored = pending conn, returned = Inr msg\<rparr>"

subsection \<open>\<open>get_student_progress\<close>\<close>

text \<open>
  \<open>fmt_2f\<close> is Python's \<open>{x:.2f}\<close> on a float, a parameter of the model. The value of
  \<open>last_studied or 'never'\<close> is \<open>'never'\<close> for \<open>NULL\<close> and for the empty string.
\<close>

definition get_student_progress ::
  "(real \<Rightarrow> string) \<Rightarrow> (statement \<Rightarrow> bool) \<Rightarrow> database \<Rightarrow> string \<Rightarrow> string \<Rightarrow> tool_run" where
  "get_student_progress fmt_2f refuses d student_id topic =
     (let conn = connect d in
      case execute refuses conn (SelectProgress student_id (topic_key topic)) of
        (conn1, Some e) \<Rightarrow> raised d conn1 e
      | (conn1, None) \<Rightarrow>
          (case student_progress (pending conn1) (student_id, topic_key topic) of
             None \<Rightarrow>
               closed_uncommitted d conn1
                 (''No progress record found for student '' @ quote @ student_id @ quote @
                  '' on topic '' @ quote @ topic @ quote @ ''. '' @
                  ''This is likely a new topic for them. Mastery: 0.0, Attempts: 0.'')
           | Some row \<Rightarrow>
               (let mastery = mastery_score row;
                    status = (if mastery < 7 / 10 then ''needs review'' else ''proficient'')
                in closed_uncommitted d conn1
                     (''Student '' @ quote @ student_id @ quote @ '' | Topic: '' @
                      quote @ topic @ quote @ newline @
                      ''  Mastery Score : '' @ fmt_2f mastery @ '' ('' @ status @ '')'' @ newline @
                      ''  Attempts      : '' @ str_int (attempts row) @ newline @
                      ''  Last Studied  : '' @
                      (case last_studied row of
                         None \<Rightarrow> ''never''
                       | Some ls \<Rightarrow> if ls = [] then ''never'' else ls)))))"

subsection \<open>\<open>update_student_progress\<close>\<close>

text \<open>The argument schema \<open>UpdateStudentProgressInput\<close>: \<open>score\<close> has \<open>ge=0.0, le=1.0\<close>.\<close>

definition UpdateStudentProgressInput :: "real \<Rightarrow> error + real" where
  "UpdateStudentProgressInput score =
     (if 0 \<le> score \<and> score \<le> 1 then Inr score else Inl ValidationError)"

text \<open>The end of the function body, shared by both branches: log the session, commit, report.\<close>

definition log_session ::
  "(real \<Rightarrow> string) \<Rightarrow> (statement \<Rightarrow> bool) \<Rightarrow> database \<Rightarrow> connection \<Rightarrow>
   string \<Rightarrow> string \<Rightarrow> real \<Rightarrow> string \<Rightarrow> real \<Rightarrow> int \<Rightarrow> tool_run" where
  "log_session fmt_2f refuses d conn student_id topic score now new_mastery new_attempts =
     (case execute refuses conn
             (InsertSession (student_id @ ''_'' @ topic_key topic @ ''_'' @ now)
                student_id (topic_key topic) score now) of
        (conn1, Some e) \<Rightarrow> raised d conn1 e
      | (conn1, None) \<Rightarrow>
          (case execute refuses conn1 Commit of
             (conn2, Some e) \<Rightarrow> raised d conn2 e
           | (conn2, None) \<Rightarrow>
               (let status =
                      (if new_mastery \<ge> 7 / 10
                       then [CHR 0xE2, CHR 0x9C, CHR 0x93] @ '' Mastery achieved!''
                       else [CHR 0xE2, CHR 0x9F, CHR 0xB3] @ '' Needs more practice.'')
                in committed conn2
                     (''Progress updated for '' @ quote @ student_id @ quote @ '' on '' @
                      quote @ topic @ quote @ ''.'' @ newline @
                      ''  Latest Score  : '' @ fmt_2f score @ newline @
                      ''  New Mastery   : '' @ fmt_2f new_mastery @ '' (after '' @
                      str_int new_attempts @ '' attempt(s))'' @ newline @
                      ''  Status        : '' @ status))))"

text \<open>
  The function under the \<open>@tool\<close> decorator. \<open>new_mastery\<close> is computed in float arithmetic
  (\<open>fl\<close>): the product \<open>old_mastery * attempts\<close>, then the sum with \<open>score\<close>, then the
  quotient by \<open>new_attempts\<close>, each rounded, the two integers converted to floats.
  Dividing by \<open>new_attempts = 0\<close> (a stored attempt count of \<open>-1\<close>) raises
  \<open>ZeroDivisionError\<close>.
\<close>

definition update_student_progress_func ::
  "(real \<Rightarrow> string) \<Rightarrow> float_ops \<Rightarrow> (statement \<Rightarrow> bool) \<Rightarrow> database \<Rightarrow>
   string \<Rightarrow> string \<Rightarrow> real \<Rightarrow> string \<Rightarrow> tool_run" where
  "update_student_progress_func fmt_2f fl refuses d student_id topic score now =
     (let conn = connect d in
      case execute refuses conn (SelectProgress student_id (topic_key topic)) of
        (conn1, Some e) \<Rightarrow> raised d conn1 e
      | (conn1, None) \<Rightarrow>
          (case student_progress (pending conn1) (student_id, topic_key topic) of
             Some existing \<Rightarrow>
               (let old_mastery = mastery_score existing;
                    old_attempts = attempts existing;
                    new_attempts = old_attempts + 1
                in if new_attempts = 0 then raised d conn1 ZeroDivisionError
                   else
                     (let new_mastery =
                            fl_div fl
                              (fl_add fl (fl_mul fl old_mastery (fl_of_int fl old_attempts)) score)
                              (fl_of_int fl new_attempts)
                      in case execute refuses conn1
                                (UpdateProgress new_mastery new_attempts now student_id (topic_key topic)) of
                           (conn2, Some e) \<Rightarrow> raised d conn2 e
                         | (conn2, None) \<Rightarrow>
                             log_session fmt_2f refuses d conn2 student_id topic score now
                               new_mastery new_attempts))
           | None \<Rightarrow>
               (case execute refuses conn1
                       (InsertProgress student_id (topic_key topic) score 1 now) of
                  (conn2, Some e) \<Rightarrow> raised d conn2 e
                | (conn2, None) \<Rightarrow>
                    log_session fmt_2f refuses d conn2 student_id topic score now score 1)))"

text \<open>
  The tool: the arguments are validated against the schema before the function runs.
\<close>

definition update_student_progress ::
  "(real \<Rightarrow> string) \<Rightarrow> float_ops \<Rightarrow> (statement \<Rightarrow> bool) \<Rightarrow> database \<Rightarrow>
   string \<Rightarrow> string \<Rightarrow> real \<Rightarrow> string \<Rightarrow> tool_run" where
  "update_student_progress fmt_2f fl refuses d student_id topic score now =
     (case UpdateStudentProgressInput score of
        Inl e \<Rightarrow> \<lparr>statements = [], stored = d, returned = Inl e\<rparr>
      | Inr s \<Rightarrow> update_student_progress_func fmt_2f fl refuses d student_id topic s now)"

text \<open>
  A sequence of calls of the tool, each on the tables the previous one stored. A call
  gives the arguments, the value \<open>call_now\<close> of \<open>datetime.now().isoformat()\<close> at the
  call, and the statements the store refuses during it. The result is the tables after
  the last call and what each call returned or raised.
\<close>

record update_call =
  call_refuses :: "statement \<Rightarrow> bool"
  call_student :: string
  call_topic :: string
  call_score :: real
  call_now :: string

definition call_update ::
  "(real \<Rightarrow> string) \<Rightarrow> float_ops \<Rightarrow> database \<Rightarrow> update_call \<Rightarrow> tool_run" where
  "call_update fmt_2f fl d c =
     update_student_progress fmt_2f fl (call_refuses c) d (call_student c) (call_topic c)
       (call_score c) (call_now c)"

fun run_updates ::
  "(real \<Rightarrow> string) \<Rightarrow> float_ops \<Rightarrow> database \<Rightarrow> update_call list \<Rightarrow>
   database \<times> (error + string) list" where
  "run_updates fmt_2f fl d [] = (d, [])"
| "run_updates fmt_2f fl d (c # calls) =
     (let r = call_update fmt_2f fl d c;
          rest = run_updates fmt_2f fl (stored r) calls
      in (fst rest, returned r # snd rest))"

text \<open>The two sides of the cross-table invariant, for a key \<open>(student_id, topic_key)\<close>.\<close>

definition attempt_count :: "database \<Rightarrow> string \<times> string \<Rightarrow> int" where
  "attempt_count d k = (case student_progress d k of None \<Rightarrow> 0 | Some row \<Rightarrow> attempts row)"

definition session_count :: "database \<Rightarrow> string \<times> string \<Rightarrow> nat" where
  "session_count d k =
     length (filter (\<lambda>r. (session_student r, session_topic r) = k) (study_sessions d))"

section \<open>The agent graph (\<open>graph.py\<close>)\<close>

text \<open>
  Messages of \<open>langchain_core.messages\<close>. Only an \<open>AIMessage\<close> has the attribute
  \<open>tool_calls\<close>; \<open>tool_calls\<close> is \<open>None\<close> where \<open>hasattr(message, "tool_calls")\<close> is false.
\<close>

datatype tool_call = ToolCall (tool_name: string) (tool_args: "(string \<times> string) list") (tool_call_id: string)

datatype message =
    SystemMessage string
  | HumanMessage string
  | AIMessage string "tool_call list"
  | ToolMessage string string

fun tool_calls :: "message \<Rightarrow> tool_call list option" where
  "tool_calls (AIMessage content calls) = Some calls"
| "tool_calls (SystemMessage content) = None"
| "tool_calls (HumanMessage content) = None"
| "tool_calls (ToolMessage content call) = None"

record AgentState =
  messages :: "message list"

text \<open>\<open>langgraph.graph.END\<close>.\<close>

definition END :: string where
  "END = ''__end__''"

text \<open>\<open>state["messages"][-1]\<close> raises \<open>IndexError\<close> on an empty list.\<close>

definition router :: "AgentState \<Rightarrow> error + string" where
  "router state =
     (case messages state of
        [] \<Rightarrow> Inl IndexError
      | m # ms \<Rightarrow>
          (let last_message = last (m # ms) in
           case tool_calls last_message of
             Some calls \<Rightarrow> if calls \<noteq> [] then Inr ''tools'' else Inr END
           | None \<Rightarrow> Inr END))"

text \<open>
  The planner \<open>llm\<close> is a parameter: from the message history to the content and the
  tool requests of its \<open>AIMessage\<close>. \<open>SYSTEM_PROMPT\<close> is a parameter too. A node returns an
  update of the state, which the reducer \<open>add_messages\<close> appends to the history.
\<close>

definition agent_node ::
  "(message list \<Rightarrow> string \<times> tool_call list) \<Rightarrow> string \<Rightarrow> AgentState \<Rightarrow> AgentState" where
  "agent_node llm SYSTEM_PROMPT state =
     (let msgs = [SystemMessage SYSTEM_PROMPT] @ messages state;
          response = AIMessage (fst (llm msgs)) (snd (llm msgs))
      in \<lparr>messages = [response]\<rparr>)"

definition add_messages :: "message list \<Rightarrow> message list \<Rightarrow> message list" where
  "add_messages left right = left @ right"

text \<open>
  \<open>ToolNode\<close>: runs the tool calls of the last message (\<open>run_tool\<close>, a parameter, gives
  the text of each result, an error text included) and returns one \<open>ToolMessage\<close> for
  each, with the id of its request. Without an \<open>AIMessage\<close> at the end it raises
  \<open>ValueError\<close>.
\<close>

definition tool_node :: "(tool_call \<Rightarrow> string) \<Rightarrow> AgentState \<Rightarrow> error + AgentState" where
  "tool_node run_tool state =
     (case messages state of
        [] \<Rightarrow> Inl ValueError
      | m # ms \<Rightarrow>
          (case tool_calls (last (m # ms)) of
             None \<Rightarrow> Inl ValueError
           | Some calls \<Rightarrow>
               Inr \<lparr>messages = map (\<lambda>c. ToolMessage (run_tool c) (tool_call_id c)) calls\<rparr>))"

text \<open>
  The graph \<open>build_graph\<close> assembles: two nodes, the entry point, the conditional edge
  from \<open>agent\<close> with its path function and path map, and the edge from \<open>tools\<close> to \<open>agent\<close>.
\<close>

record graph =
  nodes :: "string list"
  entry_point :: string
  conditional_edges :: "(string \<times> (AgentState \<Rightarrow> error + string) \<times> (string \<times> string) list) list"
  edges :: "(string \<times> string) list"

definition build_graph :: graph where
  "build_graph =
     \<lparr>nodes = [''agent'', ''tools''],
      entry_point = ''agent'',
      conditional_edges = [(''agent'', router, [(''tools'', ''tools''), (END, END)])],
      edges = [(''tools'', ''agent'')]\<rparr>"

text \<open>
  Where a compiled graph goes after a node has run: through the node's conditional edge
  (the path function on the new state, then the path map), else along its plain edge.
\<close>

definition next_node :: "graph \<Rightarrow> string \<Rightarrow> AgentState \<Rightarrow> error + string" where
  "next_node g node state =
     (case map_of (conditional_edges g) node of
        Some (path, path_map) \<Rightarrow>
          (case path state of
             Inl e \<Rightarrow> Inl e
           | Inr r \<Rightarrow> (case map_of path_map r of None \<Rightarrow> Inl KeyError | Some n \<Rightarrow> Inr n))
      | None \<Rightarrow> (case map_of (edges g) node of None \<Rightarrow> Inl KeyError | Some n \<Rightarrow> Inr n))"

definition run_node ::
  "(message list \<Rightarrow> string \<times> tool_call list) \<Rightarrow> string \<Rightarrow> (tool_call \<Rightarrow> string) \<Rightarrow>
   string \<Rightarrow> AgentState \<Rightarrow> error + AgentState" where
  "run_node llm SYSTEM_PROMPT run_tool node state =
     (if node = ''agent'' then Inr (agent_node llm SYSTEM_PROMPT state)
      else if node = ''tools'' then tool_node run_tool state
      else Inl KeyError)"

text \<open>
  \<open>app.invoke\<close>: one cycle of the graph. LangGraph bounds the run by \<open>recursion_limit\<close>
  (25 when the caller configures none, as in \<open>run_agent\<close>): the run returns only when the
  limit exceeds the number of node runs, so reaching \<open>END\<close> with no step left raises
  \<open>GraphRecursionError\<close> as running out of steps before \<open>END\<close> does, and a limit of 0 is
  refused with \<open>ValueError\<close>.
\<close>

fun invoke_from ::
  "(message list \<Rightarrow> string \<times> tool_call list) \<Rightarrow> string \<Rightarrow> (tool_call \<Rightarrow> string) \<Rightarrow>
   nat \<Rightarrow> string \<Rightarrow> AgentState \<Rightarrow> error + AgentState" where
  "invoke_from llm SYSTEM_PROMPT run_tool 0 node state = Inl GraphRecursionError"
| "invoke_from llm SYSTEM_PROMPT run_tool (Suc n) node state =
     (if node = END then Inr state
      else (case run_node llm SYSTEM_PROMPT run_tool node state of
              Inl e \<Rightarrow> Inl e
            | Inr update \<Rightarrow>
                (let state' = \<lparr>messages = add_messages (messages state) (messages update)\<rparr> in
                 case next_node build_graph node state' of
                   Inl e \<Rightarrow> Inl e
                 | Inr nxt \<Rightarrow> invoke_from llm SYSTEM_PROMPT run_tool n nxt state')))"

definition invoke ::
  "(message list \<Rightarrow> string \<times> tool_call list) \<Rightarrow> string \<Rightarrow> (tool_call \<Rightarrow> string) \<Rightarrow>
   nat \<Rightarrow> AgentState \<Rightarrow> error + AgentState" where
  "invoke llm SYSTEM_PROMPT run_tool recursion_limit state =
     (if recursion_limit = 0 then Inl ValueError
      else invoke_from llm SYSTEM_PROMPT run_tool recursion_limit (entry_point build_graph) state)"

section \<open>Content retrieval (\<open>tools.py\<close>)\<close>

text \<open>
  The knowledge index is a collaborator. A metadata filter of a query is a \<open>where\<close>
  document: \<open>{"field": {"$eq": value}}\<close> or \<open>{"$and": [...]}\<close>. A query result holds, for
  each query embedding, the list of documents and the list of their metadata dicts.
\<close>

datatype where_document = Eq string string | And "where_document list"

record query_result =
  documents :: "string list list"
  metadatas :: "(string \<times> string) list list list"

type_synonym query = "real list \<times> int \<times> where_document option"

text \<open>\<open>sep.join(parts)\<close>.\<close>

fun join :: "string \<Rightarrow> string list \<Rightarrow> string" where
  "join sep [] = []"
| "join sep [p] = p"
| "join sep (p # q # ps) = p @ sep @ join sep (q # ps)"

text \<open>\<open>meta.get(key, default)\<close> on a dict given by its items.\<close>

definition dict_get :: "(string \<times> string) list \<Rightarrow> string \<Rightarrow> string \<Rightarrow> string" where
  "dict_get meta key dflt = (case map_of meta key of None \<Rightarrow> dflt | Some v \<Rightarrow> v)"

text \<open>The loop over \<open>enumerate(zip(docs, metas), start=1)\<close>, from index \<open>i\<close>.\<close>

fun output_parts :: "int \<Rightarrow> string list \<Rightarrow> (string \<times> string) list list \<Rightarrow> string list" where
  "output_parts i (doc # docs) (meta # metas) =
     (''[Result '' @ str_int i @ '' | Source: '' @ dict_get meta ''source_file'' ''unknown'' @
      '', Page '' @ dict_get meta ''start_page'' ''?'' @ '']'' @ newline @ doc)
     # output_parts (i + 1) docs metas"
| "output_parts i docs metas = []"

text \<open>
  The argument schema \<open>RetrieveContentInput\<close>: \<open>content_type\<close> is
  \<open>Literal["explanation", "prerequisites", "practice"]\<close> and \<open>difficulty\<close> is
  \<open>Literal["beginner", "intermediate", "advanced"]\<close>; any other value is a
  \<open>ValidationError\<close>. The fields \<open>topic: str\<close> and \<open>n_results: int\<close> are the types of the
  arguments here.
\<close>

definition RetrieveContentInput :: "string \<Rightarrow> string \<Rightarrow> error + string \<times> string" where
  "RetrieveContentInput content_type difficulty =
     (if content_type \<in> set [''explanation'', ''prerequisites'', ''practice''] \<and>
         difficulty \<in> set [''beginner'', ''intermediate'', ''advanced'']
      then Inr (content_type, difficulty) else Inl ValidationError)"

text \<open>
  One run of \<open>retrieve_content\<close>: the texts it passed to the embedding call, the queries it
  sent to the collection, in order, and what it returned or raised. \<open>embed_fn\<close> is the
  embedding call \<open>_embed\<close> and \<open>collection_query\<close> the collection's \<open>query\<close>, both
  parameters. Indexing an empty list raises \<open>IndexError\<close>.
\<close>

record retrieval =
  embedded :: "string list"
  queries :: "query list"
  answer :: "error + string"

text \<open>The function body.\<close>

definition retrieve_content_func ::
  "(string \<Rightarrow> real list) \<Rightarrow> (query \<Rightarrow> query_result) \<Rightarrow>
   string \<Rightarrow> string \<Rightarrow> string \<Rightarrow> int \<Rightarrow> retrieval" where
  "retrieve_content_func embed_fn collection_query topic content_type difficulty n_results =
     (let query_text = topic @ '' '' @ content_type @ '' '' @ difficulty;
          query_embedding = embed_fn query_text;
          filtered = (query_embedding, n_results,
                      Some (And [Eq ''topic'' (topic_key topic),
                                 Eq ''content_type'' content_type,
                                 Eq ''difficulty'' difficulty]));
          unfiltered = (query_embedding, n_results, None);
          results = collection_query filtered;
          fallback = (case documents results of [] \<Rightarrow> True | docs # rest \<Rightarrow> docs = []);
          results' = (if fallback then collection_query unfiltered else results);
          sent = (if fallback then [filtered, unfiltered] else [filtered])
      in case documents results' of
           [] \<Rightarrow> \<lparr>embedded = [query_text], queries = sent, answer = Inl IndexError\<rparr>
         | docs # rest \<Rightarrow>
             (case metadatas results' of
                [] \<Rightarrow> \<lparr>embedded = [query_text], queries = sent, answer = Inl IndexError\<rparr>
              | metas # rest' \<Rightarrow>
                  (if docs = [] then
                     \<lparr>embedded = [query_text], queries = sent,
                      answer = Inr (''No content found for topic='' @ quote @ topic @ quote @
                                    '', type='' @ quote @ content_type @ quote @
                                    '', difficulty='' @ quote @ difficulty @ quote @ ''.'')\<rparr>
                   else
                     \<lparr>embedded = [query_text], queries = sent,
                      answer = Inr (join (newline @ newline @ ''---'' @ newline @ newline)
                                      (output_parts 1 docs metas))\<rparr>)))"

text \<open>
  The tool \<open>retrieve_content\<close>: the arguments are validated against the schema before the
  function body runs, so a rejected call embeds nothing and sends no query.
\<close>

definition retrieve_content ::
  "(string \<Rightarrow> real list) \<Rightarrow> (query \<Rightarrow> query_result) \<Rightarrow>
   string \<Rightarrow> string \<Rightarrow> string \<Rightarrow> int \<Rightarrow> retrieval" where
  "retrieve_content embed_fn collection_query topic content_type difficulty n_results =
     (case RetrieveContentInput content_type difficulty of
        Inl e \<Rightarrow> \<lparr>embedded = [], queries = [], answer = Inl e\<rparr>
      | Inr (content_type', difficulty') \<Rightarrow>
          retrieve_content_func embed_fn collection_query topic content_type' difficulty' n_results)"

section \<open>The ingestion pipeline (\<open>ingest_data.py\<close>)\<close>

subsection \<open>Chunking\<close>

text \<open>\<open>str.isspace\<close> on ASCII, and \<open>str.strip()\<close>.\<close>

definition isspace :: "char \<Rightarrow> bool" where
  "isspace c \<longleftrightarrow>
     c \<in> set [CHR 0x09, CHR 0x0A, CHR 0x0B, CHR 0x0C, CHR 0x0D,
              CHR 0x1C, CHR 0x1D, CHR 0x1E, CHR 0x1F, CHR 0x20]"

definition strip :: "string \<Rightarrow> string" where
  "strip s = dropWhile isspace (rev (dropWhile isspace (rev s)))"

text \<open>
  The class \<open>\d\<close> on ASCII, and \<open>int\<close> of a string of digits (the interpreter's limit on the
  number of digits that \<open>int\<close> converts is left out).
\<close>

definition isdigit :: "char \<Rightarrow> bool" where
  "isdigit c \<longleftrightarrow> c \<in> set ''0123456789''"

definition digit_value :: "char \<Rightarrow> int" where
  "digit_value c =
     (case map_of (zip ''0123456789'' [0, 1, 2, 3, 4, 5, 6, 7, 8, 9]) c of
        None \<Rightarrow> 0
      | Some v \<Rightarrow> v)"

definition int_of_digits :: "string \<Rightarrow> int" where
  "int_of_digits ds = foldl (\<lambda>n c. 10 * n + digit_value c) 0 ds"

text \<open>
  The pattern \<open>\[PAGE_\d+\]\<close> at the start of a string: the digits it matched and the
  rest of the string after the match. The digits are the longest run (the quantifier is
  greedy, and only \<open>]\<close> may follow).
\<close>

definition match_marker :: "string \<Rightarrow> (string \<times> string) option" where
  "match_marker s =
     (if take 6 s = ''[PAGE_'' then
        (let ds = takeWhile isdigit (drop 6 s);
             after = dropWhile isdigit (drop 6 s)
         in if ds \<noteq> [] \<and> take 1 after = '']'' then Some (ds, drop 1 after) else None)
      else None)"

text \<open>
  \<open>re.split(r'(\[PAGE_\d+\])', text)\<close>: the texts between the markers and, because of the
  group, the markers themselves. \<open>acc\<close> is the text since the last marker, reversed.
\<close>

function re_split_pages_from :: "string \<Rightarrow> string \<Rightarrow> string list" where
  "re_split_pages_from acc [] = [rev acc]"
| "re_split_pages_from acc (c # cs) =
     (case match_marker (c # cs) of
        Some (ds, rest) \<Rightarrow> rev acc # (''[PAGE_'' @ ds @ '']'') # re_split_pages_from [] rest
      | None \<Rightarrow> re_split_pages_from (c # acc) cs)"
  by pat_completeness auto
termination
proof (relation "measure (\<lambda>(acc, s). length s)")
  show "wf (measure (\<lambda>(acc, s). length s))"
    by simp
next
  fix acc :: string and c :: char and cs x y :: string and x2 :: "string \<times> string"
  assume "match_marker (c # cs) = Some x2" and "(x, y) = x2"
  then have "y = drop 1 (dropWhile isdigit (drop 6 (c # cs)))"
    by (auto simp add: match_marker_def Let_def split: if_splits)
  moreover have "length (dropWhile isdigit (drop 6 (c # cs))) \<le> length (drop 6 (c # cs))"
    by (rule length_dropWhile_le)
  ultimately have "length y < length (c # cs)"
    by simp
  then show "(([], y), (acc, c # cs)) \<in> measure (\<lambda>(acc, s). length s)"
    by simp
next
  fix acc :: string and c :: char and cs :: string
  show "((c # acc, cs), (acc, c # cs)) \<in> measure (\<lambda>(acc, s). length s)"
    by simp
qed

definition re_split_pages :: "string \<Rightarrow> string list" where
  "re_split_pages text = re_split_pages_from [] text"

text \<open>\<open>re.match(r'\[PAGE_(\d+)\]', segment)\<close> with \<open>int(page_match.group(1))\<close>.\<close>

definition page_match :: "string \<Rightarrow> int option" where
  "page_match segment =
     (case match_marker segment of None \<Rightarrow> None | Some (ds, rest) \<Rightarrow> Some (int_of_digits ds))"

text \<open>\<open>segment.split('\n\n')\<close>.\<close>

fun split_paragraphs_from :: "string \<Rightarrow> string \<Rightarrow> string list" where
  "split_paragraphs_from acc [] = [rev acc]"
| "split_paragraphs_from acc [c] = [rev (c # acc)]"
| "split_paragraphs_from acc (c # d # cs) =
     (if c = CHR 0x0A \<and> d = CHR 0x0A then rev acc # split_paragraphs_from [] cs
      else split_paragraphs_from (c # acc) (d # cs))"

definition split_paragraphs :: "string \<Rightarrow> string list" where
  "split_paragraphs segment = split_paragraphs_from [] segment"

text \<open>\<open>s[start:]\<close> for any integer \<open>start\<close>: a negative one counts from the end.\<close>

definition slice_from :: "'a list \<Rightarrow> int \<Rightarrow> 'a list" where
  "slice_from s start =
     (if start < 0 then drop (nat (max (int (length s) + start) 0)) s
      else drop (nat start) s)"

text \<open>
  A chunk is a dict with the keys \<open>text\<close>, \<open>chunk_index\<close> and \<open>start_page\<close> (the field of the
  first is written \<open>text'\<close>).
\<close>

record chunk =
  text' :: string
  chunk_index :: int
  start_page :: int

text \<open>The local variables of \<open>semantic_chunk\<close>.\<close>

record chunker =
  chunks :: "chunk list"
  current_chunk :: string
  current_page :: int
  chunk_start_page :: int
  idx :: int

definition init_chunker :: chunker where
  "init_chunker =
     \<lparr>chunks = [], current_chunk = [], current_page = 1, chunk_start_page = 1, idx = 0\<rparr>"

text \<open>The body of the inner loop, for one paragraph of a segment.\<close>

definition add_paragraph :: "int \<Rightarrow> int \<Rightarrow> chunker \<Rightarrow> string \<Rightarrow> chunker" where
  "add_paragraph max_chunk_size overlap st raw =
     (let para = strip raw in
      if para = [] then st
      else if int (length (current_chunk st)) + int (length para) \<le> max_chunk_size then
        st\<lparr>chunk_start_page :=
              (if current_chunk st = [] then current_page st else chunk_start_page st),
           current_chunk := current_chunk st @ para @ newline @ newline\<rparr>
      else
        (let sealed =
               (if current_chunk st \<noteq> [] then
                  st\<lparr>chunks := chunks st @
                        [\<lparr>text' = strip (current_chunk st), chunk_index = idx st,
                          start_page = chunk_start_page st\<rparr>],
                     idx := idx st + 1\<rparr>
                else st);
             overlap_text =
               (if int (length (current_chunk st)) > overlap
                then slice_from (current_chunk st) (- overlap)
                else current_chunk st)
         in sealed\<lparr>current_chunk := overlap_text @ para @ newline @ newline,
                   chunk_start_page := current_page st\<rparr>))"

text \<open>The body of the outer loop, for one segment.\<close>

definition add_segment :: "int \<Rightarrow> int \<Rightarrow> chunker \<Rightarrow> string \<Rightarrow> chunker" where
  "add_segment max_chunk_size overlap st segment =
     (case page_match segment of
        Some n \<Rightarrow> st\<lparr>current_page := n\<rparr>
      | None \<Rightarrow> foldl (add_paragraph max_chunk_size overlap) st (split_paragraphs segment))"

definition semantic_chunk :: "string \<Rightarrow> int \<Rightarrow> int \<Rightarrow> chunk list" where
  "semantic_chunk txt max_chunk_size overlap =
     (let st = foldl (add_segment max_chunk_size overlap) init_chunker (re_split_pages txt) in
      if strip (current_chunk st) \<noteq> [] then
        chunks st @
          [\<lparr>text' = strip (current_chunk st), chunk_index = idx st,
            start_page = chunk_start_page st\<rparr>]
      else chunks st)"

subsection \<open>Metadata and storage\<close>

text \<open>
  The library calls of \<open>build_metadata\<close> are parameters: \<open>hashlib.md5(s.encode()).hexdigest()\<close>,
  \<open>re.search(pattern, s, re.I)\<close> as a truth value and \<open>os.path.basename\<close> in the record
  \<open>host\<close>, and the value \<open>now\<close> of \<open>datetime.now().isoformat()\<close> at the call.
\<close>

record host =
  md5_hexdigest :: "string \<Rightarrow> string"
  re_search_I :: "string \<Rightarrow> string \<Rightarrow> bool"
  basename :: "string \<Rightarrow> string"

definition backslash :: string where
  "backslash = [CHR 0x5C]"

text \<open>\<open>str(b)\<close> for a truth value.\<close>

definition str_bool :: "bool \<Rightarrow> string" where
  "str_bool b = (if b then ''True'' else ''False'')"

text \<open>
  \<open>build_metadata\<close> returns a dict, given here by its items in the order of the source.
  Its parameters \<open>chunk_index\<close> and \<open>start_page\<close> are named \<open>index\<close> and \<open>page\<close>, the first
  two names being fields of \<open>chunk\<close>. \<open>chunk_text[:60]\<close> is \<open>take 60 chunk_text\<close>.
\<close>

definition build_metadata ::
  "host \<Rightarrow> string \<Rightarrow> string \<Rightarrow> int \<Rightarrow> int \<Rightarrow> string \<Rightarrow> string \<Rightarrow> string \<Rightarrow>
   (string \<times> string) list" where
  "build_metadata h now chunk_text index page source_file topic difficulty =
     (let content_type =
            (if re_search_I h
                  (''exercise|problem|question '' @ backslash @ ''d+|quiz|task '' @ backslash @ ''d+'')
                  chunk_text
             then ''practice''
             else if re_search_I h
                  ''prerequisite|before.*study|prior knowledge|required.*understand''
                  chunk_text
             then ''prerequisites''
             else ''explanation'');
          doc_id = md5_hexdigest h
                     (source_file @ ''_'' @ str_int index @ ''_'' @ take 60 chunk_text)
      in [(''topic'', topic_key topic),
          (''difficulty'', difficulty),
          (''content_type'', content_type),
          (''source_file'', basename h source_file),
          (''chunk_index'', str_int index),
          (''start_page'', str_int page),
          (''char_count'', str_int (int (length chunk_text))),
          (''last_updated'', now),
          (''doc_id'', doc_id),
          (''has_examples'',
             str_bool (re_search_I h (''for example|e'' @ backslash @ ''.g'' @ backslash @
                                      ''.|such as|consider'') chunk_text)),
          (''has_definitions'',
             str_bool (re_search_I h ''is defined as|refers to|means that|is called'' chunk_text)),
          (''has_steps'',
             str_bool (re_search_I h
                (''step '' @ backslash @ ''d+|first[,'' @ backslash @ ''s]|second[,'' @
                 backslash @ ''s]|finally[,'' @ backslash @ ''s]'') chunk_text))])"

text \<open>
  Step 4 of \<open>ingest\<close>: every chunk gets the key \<open>metadata\<close>. \<open>clock k\<close> is the value of
  \<open>datetime.now().isoformat()\<close> at the call for the \<open>k\<close>-th chunk of the list.
\<close>

record enriched_chunk = chunk +
  metadata :: "(string \<times> string) list"

definition enrich_chunk ::
  "host \<Rightarrow> string \<Rightarrow> string \<Rightarrow> string \<Rightarrow> string \<Rightarrow> chunk \<Rightarrow> enriched_chunk" where
  "enrich_chunk h now pdf_path topic difficulty c =
     \<lparr>text' = text' c, chunk_index = chunk_index c, start_page = start_page c,
      metadata = build_metadata h now (text' c) (chunk_index c) (start_page c)
                   pdf_path topic difficulty\<rparr>"

fun enrich_from ::
  "host \<Rightarrow> (nat \<Rightarrow> string) \<Rightarrow> string \<Rightarrow> string \<Rightarrow> string \<Rightarrow> nat \<Rightarrow> chunk list \<Rightarrow>
   enriched_chunk list" where
  "enrich_from h clock pdf_path topic difficulty k [] = []"
| "enrich_from h clock pdf_path topic difficulty k (c # cs) =
     enrich_chunk h (clock k) pdf_path topic difficulty c
     # enrich_from h clock pdf_path topic difficulty (Suc k) cs"

definition enrich ::
  "host \<Rightarrow> (nat \<Rightarrow> string) \<Rightarrow> string \<Rightarrow> string \<Rightarrow> string \<Rightarrow> chunk list \<Rightarrow> enriched_chunk list" where
  "enrich h clock pdf_path topic difficulty cs = enrich_from h clock pdf_path topic difficulty 0 cs"

text \<open>
  \<open>store_in_chromadb\<close> up to its call of \<open>collection.add\<close>: the arguments of that call.
  \<open>c['metadata']['doc_id']\<close> raises \<open>KeyError\<close> for a dict without the key.
\<close>

record add_arguments =
  add_documents :: "string list"
  add_embeddings :: "real list list"
  add_metadatas :: "(string \<times> string) list list"
  add_ids :: "string list"

fun doc_ids :: "enriched_chunk list \<Rightarrow> error + string list" where
  "doc_ids [] = Inr []"
| "doc_ids (c # cs) =
     (case map_of (metadata c) ''doc_id'' of
        None \<Rightarrow> Inl KeyError
      | Some i \<Rightarrow> (case doc_ids cs of Inl e \<Rightarrow> Inl e | Inr ids \<Rightarrow> Inr (i # ids)))"

definition store_in_chromadb :: "enriched_chunk list \<Rightarrow> real list list \<Rightarrow> error + add_arguments" where
  "store_in_chromadb cs embeddings =
     (case doc_ids cs of
        Inl e \<Rightarrow> Inl e
      | Inr ids \<Rightarrow>
          Inr \<lparr>add_documents = map text' cs, add_embeddings = embeddings,
               add_metadatas = map metadata cs, add_ids = ids\<rparr>)"

subsection \<open>Chunking with the page of every character\<close>












text \<open>The paragraphs of a text, as the two loops meet them: stripped and not empty.\<close>

definition paragraphs :: "string \<Rightarrow> string list" where
  "paragraphs txt =
     filter (\<lambda>p. p \<noteq> [])
       (map strip
          (concat (map split_paragraphs
             (filter (\<lambda>segment. page_match segment = None) (re_split_pages txt)))))"

subsection \<open>Loop invariants of the chunker\<close>

text \<open>
  Predicates of the proofs below, not of the source. \<open>fits\<close> is what the loop keeps of
  the text of a chunk, given the set \<open>P\<close> of paragraphs of the input: it is within the cap,
  or it is carried text of at most \<open>overlap\<close> characters followed by one paragraph.
  \<open>chunker_inv\<close> says so of the sealed chunks and of the running buffer, whose separator
  at the end is left out and whose one paragraph starts and ends with a character that
  \<open>strip\<close> keeps.
\<close>

definition fits :: "int \<Rightarrow> int \<Rightarrow> string set \<Rightarrow> string \<Rightarrow> bool" where
  "fits max_chunk_size overlap P t \<longleftrightarrow>
     int (length t) \<le> max_chunk_size \<or>
     (\<exists>carried p. t = carried @ p \<and> int (length carried) \<le> overlap \<and> p \<in> P)"

definition chunker_inv :: "int \<Rightarrow> int \<Rightarrow> string set \<Rightarrow> chunker \<Rightarrow> bool" where
  "chunker_inv max_chunk_size overlap P st \<longleftrightarrow>
     (\<forall>c \<in> set (chunks st). fits max_chunk_size overlap P (text' c)) \<and>
     (current_chunk st = [] \<or>
      (\<exists>body. current_chunk st = body @ newline @ newline \<and>
         (int (length body) \<le> max_chunk_size \<or>
          (\<exists>ovt p. body = ovt @ p \<and> int (length ovt) \<le> overlap \<and> p \<in> P \<and> p \<noteq> [] \<and>
             \<not> isspace (hd p) \<and> \<not> isspace (last p)))))"






section \<open>Properties of the mastery store\<close>

lemmas model_defs =
  update_student_progress_def UpdateStudentProgressInput_def update_student_progress_func_def
  log_session_def execute_def apply_statement_def connect_def raised_def committed_def
  call_update_def empty_db_def topic_key_def lower_def lower_char_def replace_space_def
  decimal3_def round3_def Let_def

lemma execute_sent: "sent (fst (execute refuses conn st)) = sent conn @ [st]"
  by (simp add: execute_def Let_def split: sum.splits)

lemma execute_select:
  "execute refuses conn (SelectProgress sid t) =
     (conn\<lparr>sent := sent conn @ [SelectProgress sid t]\<rparr>,
      if refuses (SelectProgress sid t) then Some OperationalError else None)"
  by (simp add: execute_def apply_statement_def Let_def)

lemma update_func_raises:
  "returned (update_student_progress_func fmt_2f fl refuses d sid topic score now) = Inl e \<Longrightarrow>
   stored (update_student_progress_func fmt_2f fl refuses d sid topic score now) = d"
  by (auto simp add: update_student_progress_func_def log_session_def execute_def
      apply_statement_def connect_def raised_def committed_def Let_def
      split: option.splits sum.splits if_splits prod.splits)

lemma update_func_returns:
  "returned (update_student_progress_func fmt_2f fl refuses d sid topic score now) = Inr msg \<Longrightarrow>
   stored (update_student_progress_func fmt_2f fl refuses d sid topic score now) =
     d\<lparr>student_progress := (student_progress d)((sid, topic_key topic) \<mapsto>
          (case student_progress d (sid, topic_key topic) of
             None \<Rightarrow> \<lparr>mastery_score = score, attempts = 1, last_studied = Some now\<rparr>
           | Some old \<Rightarrow>
               \<lparr>mastery_score =
                  fl_div fl
                    (fl_add fl (fl_mul fl (mastery_score old) (fl_of_int fl (attempts old))) score)
                    (fl_of_int fl (attempts old + 1)),
                attempts = attempts old + 1, last_studied = Some now\<rparr>)),
       study_sessions := study_sessions d @
          [\<lparr>session_id = sid @ ''_'' @ topic_key topic @ ''_'' @ now, session_student = sid,
            session_topic = topic_key topic, session_score = score,
            session_timestamp = now\<rparr>]\<rparr>"
  by (auto simp add: update_student_progress_func_def log_session_def execute_def
      apply_statement_def connect_def raised_def committed_def Let_def
      split: option.splits sum.splits if_splits prod.splits)

lemma update_raises:
  "returned (update_student_progress fmt_2f fl refuses d sid topic score now) = Inl e \<Longrightarrow>
   stored (update_student_progress fmt_2f fl refuses d sid topic score now) = d"
  by (auto simp add: update_student_progress_def UpdateStudentProgressInput_def
      dest: update_func_raises split: if_splits)

lemma update_returns:
  "returned (update_student_progress fmt_2f fl refuses d sid topic score now) = Inr msg \<Longrightarrow>
   stored (update_student_progress fmt_2f fl refuses d sid topic score now) =
     d\<lparr>student_progress := (student_progress d)((sid, topic_key topic) \<mapsto>
          (case student_progress d (sid, topic_key topic) of
             None \<Rightarrow> \<lparr>mastery_score = score, attempts = 1, last_studied = Some now\<rparr>
           | Some old \<Rightarrow>
               \<lparr>mastery_score =
                  fl_div fl
                    (fl_add fl (fl_mul fl (mastery_score old) (fl_of_int fl (attempts old))) score)
                    (fl_of_int fl (attempts old + 1)),
                attempts = attempts old + 1, last_studied = Some now\<rparr>)),
       study_sessions := study_sessions d @
          [\<lparr>session_id = sid @ ''_'' @ topic_key topic @ ''_'' @ now, session_student = sid,
            session_topic = topic_key topic, session_score = score,
            session_timestamp = now\<rparr>]\<rparr>"
  by (auto simp add: update_student_progress_def UpdateStudentProgressInput_def
      dest: update_func_returns split: if_splits)

lemma update_keeps_invariant:
  assumes inv: "\<forall>k. attempt_count d k = int (session_count d k)"
  shows "attempt_count (stored (update_student_progress fmt_2f fl refuses d sid topic score now)) k =
         int (session_count (stored (update_student_progress fmt_2f fl refuses d sid topic score now)) k)"
proof (cases "returned (update_student_progress fmt_2f fl refuses d sid topic score now)")
  case (Inl e)
  show ?thesis unfolding update_raises [OF Inl] by (rule inv [rule_format])
next
  case (Inr msg)
  have a: "attempt_count d (sid, topic_key topic) = int (session_count d (sid, topic_key topic))"
    by (rule inv [rule_format])
  have b: "attempt_count d k = int (session_count d k)"
    by (rule inv [rule_format])
  show ?thesis
    using a b unfolding update_returns [OF Inr]
    by (auto simp add: attempt_count_def session_count_def split: option.splits)
qed

lemma run_updates_invariant:
  "\<forall>k. attempt_count d k = int (session_count d k) \<Longrightarrow>
   attempt_count (fst (run_updates fmt_2f fl d calls)) k =
     int (session_count (fst (run_updates fmt_2f fl d calls)) k)"
proof (induction calls arbitrary: d)
  case Nil
  show ?case using Nil [rule_format, of k] by simp
next
  case (Cons c calls)
  have "\<forall>k. attempt_count (stored (call_update fmt_2f fl d c)) k =
         int (session_count (stored (call_update fmt_2f fl d c)) k)"
    unfolding call_update_def by (intro allI update_keeps_invariant [OF Cons.prems])
  from Cons.IH [OF this] show ?case
    by (simp add: Let_def)
qed

lemma empty_db_invariant: "attempt_count empty_db k = int (session_count empty_db k)"
  by (simp add: attempt_count_def session_count_def empty_db_def)

text \<open>
  The error of one step of the running mean. For a mean \<open>mu\<close> in \<open>[0,1]\<close> held with error
  \<open>e \<le> 1\<close>, a count \<open>k \<ge> 1\<close> and a score in \<open>[0,1]\<close>, the three rounded operations stay
  below \<open>8 * k + 5\<close> in magnitude and add at most \<open>14 * u + 3 * eta\<close> to the error.
\<close>

lemma product_magnitude:
  fixes m mu e k :: real
  assumes "\<bar>m - mu\<bar> \<le> e" "e \<le> 1" "0 \<le> mu" "mu \<le> 1" "1 \<le> k"
  shows "\<bar>m * k\<bar> \<le> 2 * k"
proof -
  have "\<bar>m\<bar> \<le> 2" using assms by linarith
  then have "\<bar>m\<bar> * k \<le> 2 * k"
    using assms(5) by (intro mult_right_mono) linarith+
  then show ?thesis
    using assms(5) by (simp add: abs_mult)
qed

lemma rounded_magnitude:
  fixes r x b u eta :: real
  assumes "\<bar>r - x\<bar> \<le> u * \<bar>x\<bar> + eta" "\<bar>x\<bar> \<le> b" "0 \<le> u" "u \<le> 1" "eta \<le> 1"
  shows "\<bar>r\<bar> \<le> 2 * b + 1" and "\<bar>r - x\<bar> \<le> u * b + eta"
proof -
  have "u * \<bar>x\<bar> \<le> u * b"
    using assms(2,3) by (rule mult_left_mono)
  then show e: "\<bar>r - x\<bar> \<le> u * b + eta"
    using assms(1) by linarith
  have "0 \<le> b" using assms(2) by linarith
  then have "u * b \<le> 1 * b"
    using assms(4) by (intro mult_right_mono)
  then show "\<bar>r\<bar> \<le> 2 * b + 1"
    using e assms(2,5) by linarith
qed

lemma quotient_magnitude:
  fixes t k :: real
  assumes "\<bar>t\<bar> \<le> 8 * k + 5" "1 \<le> k"
  shows "\<bar>t / (k + 1)\<bar> \<le> 8"
proof -
  have "\<bar>t\<bar> \<le> 8 * (k + 1)" using assms by (simp add: distrib_left)
  then have "\<bar>t\<bar> / (k + 1) \<le> 8"
    using assms(2) by (simp add: pos_divide_le_eq)
  then show ?thesis
    using assms(2) by simp
qed

lemma mean_step:
  fixes m mu e u eta k s p t q :: real
  assumes u: "0 \<le> u" "u \<le> 1" and eta: "0 \<le> eta" "eta \<le> 1"
    and k: "1 \<le> k" and s: "0 \<le> s" "s \<le> 1" and mu: "0 \<le> mu" "mu \<le> 1"
    and e: "\<bar>m - mu\<bar> \<le> e" "e \<le> 1"
    and p: "\<bar>p - m * k\<bar> \<le> u * \<bar>m * k\<bar> + eta"
    and t: "\<bar>t - (p + s)\<bar> \<le> u * \<bar>p + s\<bar> + eta"
    and q: "\<bar>q - t / (k + 1)\<bar> \<le> u * \<bar>t / (k + 1)\<bar> + eta"
  shows "\<bar>q - (mu * k + s) / (k + 1)\<bar> \<le> e + 14 * u + 3 * eta"
proof -
  have mk: "\<bar>m * k\<bar> \<le> 2 * k"
    by (rule product_magnitude [OF e mu k])
  have p1: "\<bar>p\<bar> \<le> 2 * (2 * k) + 1" and p2: "\<bar>p - m * k\<bar> \<le> u * (2 * k) + eta"
    using rounded_magnitude [OF p mk u eta(2)] by simp_all
  have ps: "\<bar>p + s\<bar> \<le> 4 * k + 2"
    using p1 s by linarith
  have t1: "\<bar>t\<bar> \<le> 2 * (4 * k + 2) + 1" and t2: "\<bar>t - (p + s)\<bar> \<le> u * (4 * k + 2) + eta"
    using rounded_magnitude [OF t ps u eta(2)] by simp_all
  have tq: "\<bar>t / (k + 1)\<bar> \<le> 8"
    using quotient_magnitude [of t k] t1 k by simp
  have q2: "\<bar>q - t / (k + 1)\<bar> \<le> u * 8 + eta"
    using rounded_magnitude(2) [OF q tq u eta(2)] by simp
  have mm: "\<bar>m * k - mu * k\<bar> \<le> e * k"
  proof -
    have "\<bar>m * k - mu * k\<bar> = \<bar>m - mu\<bar> * k"
      using k by (simp add: abs_mult left_diff_distrib [symmetric])
    also have "\<dots> \<le> e * k"
      using e(1) k by (intro mult_right_mono) linarith+
    finally show ?thesis .
  qed
  have num: "\<bar>t - (mu * k + s)\<bar> \<le> u * (6 * k + 2) + 2 * eta + e * k"
    using t2 p2 mm by (simp add: algebra_simps)
  have e0: "0 \<le> e" using e(1) by linarith
  have "u * (6 * k + 2) + 2 * eta + e * k \<le> (6 * u + 2 * eta + e) * (k + 1)"
  proof -
    have "0 \<le> 4 * u + 2 * eta * k + e"
      using u eta k e0 by (simp add: add_nonneg_nonneg)
    then show ?thesis
      by (simp add: algebra_simps)
  qed
  with num have "\<bar>t - (mu * k + s)\<bar> \<le> (6 * u + 2 * eta + e) * (k + 1)"
    by linarith
  then have "\<bar>t - (mu * k + s)\<bar> / (k + 1) \<le> 6 * u + 2 * eta + e"
    using k by (simp add: pos_divide_le_eq)
  moreover have "\<bar>t / (k + 1) - (mu * k + s) / (k + 1)\<bar> = \<bar>t - (mu * k + s)\<bar> / (k + 1)"
    using k by (simp add: diff_divide_distrib [symmetric])
  ultimately have d: "\<bar>t / (k + 1) - (mu * k + s) / (k + 1)\<bar> \<le> 6 * u + 2 * eta + e"
    by simp
  show ?thesis
    using q2 d by linarith
qed

lemma round_to_thousandth:
  "\<bar>real_of_int \<lfloor>x * 1000 + 1 / 2\<rfloor> / 1000 - x\<bar> \<le> 1 / 2000"
proof -
  define z where "z = real_of_int \<lfloor>x * 1000 + 1 / 2\<rfloor>"
  have "z \<le> x * 1000 + 1 / 2"
    unfolding z_def by (rule of_int_floor_le)
  moreover have "x * 1000 + 1 / 2 < z + 1"
    unfolding z_def by (rule real_of_int_floor_add_one_gt)
  ultimately have "\<bar>z / 1000 - x\<bar> \<le> 1 / 2000"
    by linarith
  then show ?thesis
    by (simp add: z_def)
qed

lemma update_returns_valid:
  "returned (update_student_progress fmt_2f fl refuses d sid topic score now) = Inr msg \<Longrightarrow>
   0 \<le> score \<and> score \<le> 1"
  by (simp add: update_student_progress_def UpdateStudentProgressInput_def split: if_splits)

lemma mastery_step:
  assumes fm: "float_model u eta bound fl"
    and u1: "u \<le> 1" and eta1: "eta \<le> 1"
    and a: "1 \<le> a" "a + 1 \<le> 2 ^ 53"
    and rng: "8 * real_of_int a + 5 \<le> bound"
    and s: "0 \<le> s" "s \<le> 1"
    and S: "0 \<le> S" "S \<le> real_of_int a"
    and err: "\<bar>m - S / real_of_int a\<bar> \<le> e" "e \<le> 1"
  shows "\<bar>fl_div fl (fl_add fl (fl_mul fl m (fl_of_int fl a)) s) (fl_of_int fl (a + 1)) -
          (S + s) / real_of_int (a + 1)\<bar> \<le> e + 14 * u + 3 * eta"
proof -
  define k where "k = real_of_int a"
  define mu where "mu = S / k"
  define p where "p = fl_mul fl m k"
  define t where "t = fl_add fl p s"
  define q where "q = fl_div fl t (k + 1)"
  have u0: "0 \<le> u" and eta0: "0 \<le> eta"
    and mul: "\<And>x y. \<bar>x * y\<bar> \<le> bound \<Longrightarrow> \<bar>fl_mul fl x y - x * y\<bar> \<le> u * \<bar>x * y\<bar> + eta"
    and add: "\<And>x y. \<bar>x + y\<bar> \<le> bound \<Longrightarrow> \<bar>fl_add fl x y - (x + y)\<bar> \<le> u * \<bar>x + y\<bar> + eta"
    and div: "\<And>x y. y \<noteq> 0 \<Longrightarrow> \<bar>x / y\<bar> \<le> bound \<Longrightarrow> \<bar>fl_div fl x y - x / y\<bar> \<le> u * \<bar>x / y\<bar> + eta"
    and conv: "\<And>i. \<bar>i\<bar> \<le> 2 ^ 53 \<Longrightarrow> fl_of_int fl i = real_of_int i"
    using fm unfolding float_model_def by blast+
  have ca: "fl_of_int fl a = k" and ca1: "fl_of_int fl (a + 1) = k + 1"
    using a conv [of a] conv [of "a + 1"] by (simp_all add: k_def)
  have k1: "1 \<le> k" using a(1) by (simp add: k_def)
  have mu01: "0 \<le> mu" "mu \<le> 1"
    using S k1 by (simp_all add: mu_def k_def)
  have e: "\<bar>m - mu\<bar> \<le> e" using err(1) by (simp add: mu_def k_def)
  have rk: "8 * k + 5 \<le> bound" using rng by (simp add: k_def)
  have mk: "\<bar>m * k\<bar> \<le> 2 * k"
    by (rule product_magnitude [OF e err(2) mu01 k1])
  have pb: "\<bar>p - m * k\<bar> \<le> u * \<bar>m * k\<bar> + eta"
    unfolding p_def using mk rk k1 by (intro mul) linarith
  have p1: "\<bar>p\<bar> \<le> 2 * (2 * k) + 1"
    by (rule rounded_magnitude(1) [OF pb mk u0 u1 eta1])
  have ps: "\<bar>p + s\<bar> \<le> 4 * k + 2"
    using p1 s by linarith
  have tb: "\<bar>t - (p + s)\<bar> \<le> u * \<bar>p + s\<bar> + eta"
    unfolding t_def using ps rk k1 by (intro add) linarith
  have t1: "\<bar>t\<bar> \<le> 2 * (4 * k + 2) + 1"
    by (rule rounded_magnitude(1) [OF tb ps u0 u1 eta1])
  have tq: "\<bar>t / (k + 1)\<bar> \<le> 8"
    using quotient_magnitude [of t k] t1 k1 by simp
  have qb: "\<bar>q - t / (k + 1)\<bar> \<le> u * \<bar>t / (k + 1)\<bar> + eta"
    unfolding q_def using tq rk k1 by (intro div) linarith+
  have "\<bar>q - (mu * k + s) / (k + 1)\<bar> \<le> e + 14 * u + 3 * eta"
    by (rule mean_step [OF u0 u1 eta0 eta1 k1 s mu01 e err(2) pb tb qb])
  moreover have "mu * k = S"
    using k1 by (simp add: mu_def)
  moreover have "real_of_int (a + 1) = k + 1"
    by (simp add: k_def)
  ultimately show ?thesis
    by (simp add: q_def t_def p_def ca ca1)
qed

lemma run_same_key:
  assumes fm: "float_model u eta bound fl"
    and row: "student_progress d k = Some row"
    and a: "1 \<le> attempts row"
    and S: "0 \<le> S" "S \<le> real_of_int (attempts row)"
    and err: "\<bar>mastery_score row - S / real_of_int (attempts row)\<bar> \<le> E"
    and same: "\<forall>c \<in> set calls. (call_student c, topic_key (call_topic c)) = k"
    and outs: "\<forall>out \<in> set (snd (run_updates fmt_2f fl d calls)). \<exists>msg. out = Inr msg"
    and small: "E + real (length calls) * (14 * u + 3 * eta) \<le> 1" "u \<le> 1" "eta \<le> 1"
    and rng: "8 * (real_of_int (attempts row) + real (length calls)) + 5 \<le> bound"
    and conv: "attempts row + int (length calls) \<le> 2 ^ 53"
  shows "\<exists>row'. student_progress (fst (run_updates fmt_2f fl d calls)) k = Some row' \<and>
          attempts row' = attempts row + int (length calls) \<and>
          \<bar>mastery_score row' -
             (S + sum_list (map call_score calls)) / real_of_int (attempts row')\<bar> \<le>
            E + real (length calls) * (14 * u + 3 * eta)"
  using row a S err same outs small(1) rng conv
proof (induction calls arbitrary: d row S E)
  case Nil
  then show ?case by simp
next
  case (Cons c calls)
  let ?r = "call_update fmt_2f fl d c"
  let ?delta = "14 * u + 3 * eta"
  have u0: "0 \<le> u" and eta0: "0 \<le> eta"
    using fm by (simp_all add: float_model_def)
  have d0: "0 \<le> ?delta" using u0 eta0 by simp
  have k: "k = (call_student c, topic_key (call_topic c))"
    using Cons.prems(6) by auto
  from Cons.prems(7) obtain msg where ok: "returned ?r = Inr msg"
    by (auto simp add: Let_def)
  have sc: "0 \<le> call_score c" "call_score c \<le> 1"
    using update_returns_valid [OF ok [unfolded call_update_def]] by simp_all
  have E1: "E \<le> 1"
  proof -
    have "0 \<le> real (length (c # calls)) * ?delta"
      using d0 by (intro mult_nonneg_nonneg) simp_all
    then show ?thesis using Cons.prems(8) by linarith
  qed
  have a1: "attempts row + 1 \<le> 2 ^ 53"
    using Cons.prems(10) by simp
  have r1: "8 * real_of_int (attempts row) + 5 \<le> bound"
    using Cons.prems(9) by simp
  define m' where "m' = fl_div fl
      (fl_add fl (fl_mul fl (mastery_score row) (fl_of_int fl (attempts row))) (call_score c))
      (fl_of_int fl (attempts row + 1))"
  have step: "\<bar>m' - (S + call_score c) / real_of_int (attempts row + 1)\<bar> \<le> E + ?delta"
    unfolding m'_def
    using mastery_step [OF fm small(2,3) Cons.prems(2) a1 r1 sc Cons.prems(3,4,5) E1]
    by simp
  obtain row1 where st: "student_progress (stored ?r) k = Some row1"
    and at1: "attempts row1 = attempts row + 1"
    and ms1: "mastery_score row1 = m'"
    using update_returns [OF ok [unfolded call_update_def]] Cons.prems(1)
    by (simp add: call_update_def k m'_def)
  have a': "1 \<le> attempts row1"
    using at1 Cons.prems(2) by simp
  have S': "0 \<le> S + call_score c" "S + call_score c \<le> real_of_int (attempts row1)"
    using Cons.prems(3,4) sc at1 by simp_all
  have err': "\<bar>mastery_score row1 - (S + call_score c) / real_of_int (attempts row1)\<bar> \<le> E + ?delta"
    using step by (simp add: ms1 at1)
  have same': "\<forall>c \<in> set calls. (call_student c, topic_key (call_topic c)) = k"
    using Cons.prems(6) by simp
  have outs': "\<forall>out \<in> set (snd (run_updates fmt_2f fl (stored ?r) calls)). \<exists>msg. out = Inr msg"
    using Cons.prems(7) by (simp add: Let_def)
  have small': "(E + ?delta) + real (length calls) * ?delta \<le> 1"
    using Cons.prems(8) by (simp add: algebra_simps)
  have rng': "8 * (real_of_int (attempts row1) + real (length calls)) + 5 \<le> bound"
    using Cons.prems(9) by (simp add: at1)
  have conv': "attempts row1 + int (length calls) \<le> 2 ^ 53"
    using Cons.prems(10) by (simp add: at1)
  from Cons.IH [OF st a' S' err' same' outs' small' rng' conv'] obtain row' where
    r: "student_progress (fst (run_updates fmt_2f fl (stored ?r) calls)) k = Some row'"
       "attempts row' = attempts row1 + int (length calls)"
       "\<bar>mastery_score row' -
          (S + call_score c + sum_list (map call_score calls)) / real_of_int (attempts row')\<bar> \<le>
        (E + ?delta) + real (length calls) * ?delta"
    by blast
  show ?case
    using r at1 by (simp add: Let_def algebra_simps)
qed

lemma round3_error: "\<bar>round3 x - x\<bar> \<le> 1 / 2000"
  unfolding round3_def by (rule round_to_thousandth)

lemma decimal3_model: "float_model 0 (1 / 2000) bound decimal3"
proof -
  have "\<bar>round3 x - x\<bar> * 2000 \<le> 1" for x
    using round3_error [of x] by simp
  then show ?thesis
    unfolding float_model_def decimal3_def by simp
qed

text \<open>
  Claim C1. Each step stores \<open>score\<close> with one attempt when the key has no record, and
  otherwise, with \<open>attempts + 1\<close>, the float value of
  \<open>(old_mastery * attempts + score) / (attempts + 1)\<close>, as computed and unclamped. For any
  float arithmetic within the standard model (relative error \<open>u\<close>, absolute error \<open>eta\<close>, up
  to the magnitude \<open>bound\<close>): from tables with no record for the key
  \<open>(student_id, topic_key topic)\<close>, after \<open>n \<ge> 1\<close> calls for that key that all returned, the
  stored attempts are exactly \<open>n\<close> and the stored mastery is within the tolerance
  \<open>n * (14 * u + 3 * eta)\<close> of the arithmetic mean of the submitted scores, as long as that
  tolerance is at most 1, \<open>8 * n + 5 \<le> bound\<close> and \<open>n \<le> 2 ^ 53\<close>. For IEEE doubles the tolerance
  is below \<open>n * 1.6e-15\<close>.
\<close>

theorem running_mean:
  assumes fm: "float_model u eta bound fl"
    and none: "student_progress d k = None"
    and ne: "calls \<noteq> []"
    and same: "\<forall>c \<in> set calls. (call_student c, topic_key (call_topic c)) = k"
    and outs: "\<forall>out \<in> set (snd (run_updates fmt_2f fl d calls)). \<exists>msg. out = Inr msg"
    and small: "real (length calls) * (14 * u + 3 * eta) \<le> 1"
    and rng: "8 * real (length calls) + 5 \<le> bound"
    and conv: "int (length calls) \<le> 2 ^ 53"
  shows "(\<exists>row. student_progress (fst (run_updates fmt_2f fl d calls)) k = Some row \<and>
           attempts row = int (length calls) \<and>
           \<bar>mastery_score row - sum_list (map call_score calls) / real (length calls)\<bar> \<le>
             real (length calls) * (14 * u + 3 * eta)) \<and>
         (returned (update_student_progress fmt_2f fl refuses d' sid topic score now) = Inr msg \<longrightarrow>
            student_progress
              (stored (update_student_progress fmt_2f fl refuses d' sid topic score now))
              (sid, topic_key topic) =
            Some (case student_progress d' (sid, topic_key topic) of
                    None \<Rightarrow> \<lparr>mastery_score = score, attempts = 1, last_studied = Some now\<rparr>
                  | Some old \<Rightarrow>
                      \<lparr>mastery_score =
                         fl_div fl
                           (fl_add fl
                              (fl_mul fl (mastery_score old) (fl_of_int fl (attempts old))) score)
                           (fl_of_int fl (attempts old + 1)),
                       attempts = attempts old + 1, last_studied = Some now\<rparr>))"
proof (rule conjI)
  let ?delta = "14 * u + 3 * eta"
  obtain c rest where calls: "calls = c # rest"
    using ne by (cases calls) auto
  let ?r = "call_update fmt_2f fl d c"
  have u0: "0 \<le> u" and eta0: "0 \<le> eta"
    using fm by (simp_all add: float_model_def)
  have d0: "0 \<le> ?delta" using u0 eta0 by simp
  have d1: "?delta \<le> 1"
  proof -
    have "?delta \<le> real (length calls) * ?delta"
      using mult_right_mono [of 1 "real (length calls)" ?delta] d0 by (simp add: calls)
    then show ?thesis using small by (rule order_trans)
  qed
  have u1: "u \<le> 1" and eta1: "eta \<le> 1"
    using d1 u0 eta0 by linarith+
  have k: "k = (call_student c, topic_key (call_topic c))"
    using same by (auto simp add: calls)
  from outs obtain msg' where ok: "returned ?r = Inr msg'"
    by (auto simp add: calls Let_def)
  have sc: "0 \<le> call_score c" "call_score c \<le> 1"
    using update_returns_valid [OF ok [unfolded call_update_def]] by simp_all
  obtain row1 where st: "student_progress (stored ?r) k = Some row1"
    and at1: "attempts row1 = 1" and ms1: "mastery_score row1 = call_score c"
    using update_returns [OF ok [unfolded call_update_def]] none
    by (simp add: call_update_def k)
  have a': "1 \<le> attempts row1" by (simp add: at1)
  have S': "0 \<le> call_score c" "call_score c \<le> real_of_int (attempts row1)"
    using sc by (simp_all add: at1)
  have err': "\<bar>mastery_score row1 - call_score c / real_of_int (attempts row1)\<bar> \<le> 0"
    by (simp add: ms1 at1)
  have same': "\<forall>c \<in> set rest. (call_student c, topic_key (call_topic c)) = k"
    using same by (simp add: calls)
  have outs': "\<forall>out \<in> set (snd (run_updates fmt_2f fl (stored ?r) rest)). \<exists>msg. out = Inr msg"
    using outs by (simp add: calls Let_def)
  have le: "real (length rest) * ?delta \<le> real (length calls) * ?delta"
    using d0 by (intro mult_right_mono) (simp_all add: calls)
  have small': "0 + real (length rest) * ?delta \<le> 1"
    using order_trans [OF le small] by simp
  have rng': "8 * (real_of_int (attempts row1) + real (length rest)) + 5 \<le> bound"
    using rng by (simp add: at1 calls)
  have conv': "attempts row1 + int (length rest) \<le> 2 ^ 53"
    using conv by (simp add: at1 calls)
  from run_same_key [OF fm st a' S' err' same' outs' small' u1 eta1 rng' conv'] obtain row where
    r: "student_progress (fst (run_updates fmt_2f fl (stored ?r) rest)) k = Some row"
       "attempts row = attempts row1 + int (length rest)"
       "\<bar>mastery_score row -
          (call_score c + sum_list (map call_score rest)) / real_of_int (attempts row)\<bar> \<le>
        0 + real (length rest) * ?delta"
    by blast
  have n: "attempts row = int (length calls)"
    using r(2) at1 by (simp add: calls)
  have "\<bar>mastery_score row -
          (call_score c + sum_list (map call_score rest)) / real_of_int (attempts row)\<bar> \<le>
        real (length calls) * ?delta"
    using order_trans [OF r(3)] le by simp
  then have "\<bar>mastery_score row - sum_list (map call_score calls) / real (length calls)\<bar> \<le>
          real (length calls) * ?delta"
    by (simp add: n calls)
  then show "\<exists>row. student_progress (fst (run_updates fmt_2f fl d calls)) k = Some row \<and>
           attempts row = int (length calls) \<and>
           \<bar>mastery_score row - sum_list (map call_score calls) / real (length calls)\<bar> \<le>
             real (length calls) * (14 * u + 3 * eta)"
    using r(1) n by (simp add: calls Let_def)
next
  show "returned (update_student_progress fmt_2f fl refuses d' sid topic score now) = Inr msg \<longrightarrow>
            student_progress
              (stored (update_student_progress fmt_2f fl refuses d' sid topic score now))
              (sid, topic_key topic) =
            Some (case student_progress d' (sid, topic_key topic) of
                    None \<Rightarrow> \<lparr>mastery_score = score, attempts = 1, last_studied = Some now\<rparr>
                  | Some old \<Rightarrow>
                      \<lparr>mastery_score =
                         fl_div fl
                           (fl_add fl
                              (fl_mul fl (mastery_score old) (fl_of_int fl (attempts old))) score)
                           (fl_of_int fl (attempts old + 1)),
                       attempts = attempts old + 1, last_studied = Some now\<rparr>)"
  proof
    assume ok: "returned (update_student_progress fmt_2f fl refuses d' sid topic score now) = Inr msg"
    show "student_progress
              (stored (update_student_progress fmt_2f fl refuses d' sid topic score now))
              (sid, topic_key topic) =
            Some (case student_progress d' (sid, topic_key topic) of
                    None \<Rightarrow> \<lparr>mastery_score = score, attempts = 1, last_studied = Some now\<rparr>
                  | Some old \<Rightarrow>
                      \<lparr>mastery_score =
                         fl_div fl
                           (fl_add fl
                              (fl_mul fl (mastery_score old) (fl_of_int fl (attempts old))) score)
                           (fl_of_int fl (attempts old + 1)),
                       attempts = attempts old + 1, last_studied = Some now\<rparr>)"
      unfolding update_returns [OF ok] by simp
  qed
qed

text \<open>
  Scores \<open>0.6\<close>, \<open>1.0\<close> and \<open>0.7\<close> for student \<open>s1\<close> and topic \<open>algebra\<close> (spelled \<open>Algebra\<close> in
  the second call, the same key), in the arithmetic that rounds to three decimals: the
  stored mastery is \<open>0.767\<close>, within \<open>3 * 3/2000\<close> of the mean \<open>23/30\<close>.
\<close>

lemma three_scores_run:
  "student_progress
     (fst (run_updates (\<lambda>x. ''?'') decimal3 empty_db
        [\<lparr>call_refuses = (\<lambda>st. False), call_student = ''s1'', call_topic = ''algebra'',
            call_score = 6 / 10, call_now = ''t1''\<rparr>,
         \<lparr>call_refuses = (\<lambda>st. False), call_student = ''s1'', call_topic = ''Algebra'',
            call_score = 1, call_now = ''t2''\<rparr>,
         \<lparr>call_refuses = (\<lambda>st. False), call_student = ''s1'', call_topic = ''algebra'',
            call_score = 7 / 10, call_now = ''t3''\<rparr>]))
     (''s1'', ''algebra'') =
   Some \<lparr>mastery_score = 767 / 1000, attempts = 3, last_studied = Some ''t3''\<rparr>"
  by (simp add: model_defs)

theorem running_mean_witness:
  "\<exists>row. student_progress
      (fst (run_updates (\<lambda>x. ''?'') decimal3 empty_db
         [\<lparr>call_refuses = (\<lambda>st. False), call_student = ''s1'', call_topic = ''algebra'',
             call_score = 6 / 10, call_now = ''t1''\<rparr>,
          \<lparr>call_refuses = (\<lambda>st. False), call_student = ''s1'', call_topic = ''Algebra'',
             call_score = 1, call_now = ''t2''\<rparr>,
          \<lparr>call_refuses = (\<lambda>st. False), call_student = ''s1'', call_topic = ''algebra'',
             call_score = 7 / 10, call_now = ''t3''\<rparr>]))
      (''s1'', ''algebra'') = Some row \<and> attempts row = 3 \<and>
      mastery_score row = 767 / 1000 \<and> \<bar>mastery_score row - 23 / 30\<bar> \<le> 9 / 2000"
proof -
  let ?calls = "[\<lparr>call_refuses = (\<lambda>st. False), call_student = ''s1'', call_topic = ''algebra'',
             call_score = 6 / 10, call_now = ''t1''\<rparr>,
          \<lparr>call_refuses = (\<lambda>st. False), call_student = ''s1'', call_topic = ''Algebra'',
             call_score = 1, call_now = ''t2''\<rparr>,
          \<lparr>call_refuses = (\<lambda>st. False), call_student = ''s1'', call_topic = ''algebra'',
             call_score = 7 / 10, call_now = ''t3''\<rparr>]"
  have 1: "student_progress empty_db (''s1'', ''algebra'') = None"
    by (simp add: empty_db_def)
  have 2: "?calls \<noteq> []" by simp
  have 3: "\<forall>c \<in> set ?calls. (call_student c, topic_key (call_topic c)) = (''s1'', ''algebra'')"
    by (simp add: model_defs)
  have 4: "\<forall>out \<in> set (snd (run_updates (\<lambda>x. ''?'') decimal3 empty_db ?calls)). \<exists>msg. out = Inr msg"
    by (simp add: model_defs)
  have 5: "real (length ?calls) * (14 * 0 + 3 * (1 / 2000)) \<le> 1" by simp
  have 6: "8 * real (length ?calls) + 5 \<le> 100" by simp
  have 7: "int (length ?calls) \<le> 2 ^ 53" by simp
  from running_mean [OF decimal3_model 1 2 3 4 5 6 7, THEN conjunct1] three_scores_run
  show ?thesis
    by simp
qed

text \<open>
  Claim C3. From the empty tables, after any sequence of calls of
  \<open>update_student_progress\<close> (those that raise included), the attempts stored for every key
  \<open>(student_id, topic_key)\<close> equal the number of \<open>study_sessions\<close> rows of that key. A call
  that raises, at whichever statement, stores the tables as they were; a call that
  returns has stored both the mastery row and exactly one new session row.
\<close>

theorem attempts_match_sessions:
  "attempt_count (fst (run_updates fmt_2f fl empty_db calls)) k =
     int (session_count (fst (run_updates fmt_2f fl empty_db calls)) k) \<and>
   (returned (update_student_progress fmt_2f fl refuses d sid topic score now) = Inl e \<longrightarrow>
      stored (update_student_progress fmt_2f fl refuses d sid topic score now) = d) \<and>
   (returned (update_student_progress fmt_2f fl refuses d sid topic score now) = Inr msg \<longrightarrow>
      student_progress (stored (update_student_progress fmt_2f fl refuses d sid topic score now))
        (sid, topic_key topic) \<noteq> None \<and>
      study_sessions (stored (update_student_progress fmt_2f fl refuses d sid topic score now)) =
        study_sessions d @
          [\<lparr>session_id = sid @ ''_'' @ topic_key topic @ ''_'' @ now, session_student = sid,
            session_topic = topic_key topic, session_score = score,
            session_timestamp = now\<rparr>])"
proof (intro conjI impI)
  show "attempt_count (fst (run_updates fmt_2f fl empty_db calls)) k =
     int (session_count (fst (run_updates fmt_2f fl empty_db calls)) k)"
    by (rule run_updates_invariant) (simp add: empty_db_invariant)
next
  assume "returned (update_student_progress fmt_2f fl refuses d sid topic score now) = Inl e"
  then show "stored (update_student_progress fmt_2f fl refuses d sid topic score now) = d"
    by (rule update_raises)
next
  assume ok: "returned (update_student_progress fmt_2f fl refuses d sid topic score now) = Inr msg"
  show "student_progress (stored (update_student_progress fmt_2f fl refuses d sid topic score now))
        (sid, topic_key topic) \<noteq> None"
    unfolding update_returns [OF ok] by simp
  show "study_sessions (stored (update_student_progress fmt_2f fl refuses d sid topic score now)) =
        study_sessions d @
          [\<lparr>session_id = sid @ ''_'' @ topic_key topic @ ''_'' @ now, session_student = sid,
            session_topic = topic_key topic, session_score = score,
            session_timestamp = now\<rparr>]"
    unfolding update_returns [OF ok] by simp
qed

text \<open>
  Two calls at the same timestamp: the second session id is taken, the second call
  raises after its \<open>UPDATE\<close> and nothing of it is stored. A store refusing the commit
  leaves the tables empty.
\<close>

theorem attempts_match_sessions_witness:
  "attempt_count
     (fst (run_updates (\<lambda>x. ''?'') decimal3 empty_db
        [\<lparr>call_refuses = (\<lambda>st. False), call_student = ''s1'', call_topic = ''algebra'',
            call_score = 6 / 10, call_now = ''t1''\<rparr>,
         \<lparr>call_refuses = (\<lambda>st. False), call_student = ''s1'', call_topic = ''algebra'',
            call_score = 1, call_now = ''t1''\<rparr>]))
     (''s1'', ''algebra'') = 1 \<and>
   session_count
     (fst (run_updates (\<lambda>x. ''?'') decimal3 empty_db
        [\<lparr>call_refuses = (\<lambda>st. False), call_student = ''s1'', call_topic = ''algebra'',
            call_score = 6 / 10, call_now = ''t1''\<rparr>,
         \<lparr>call_refuses = (\<lambda>st. False), call_student = ''s1'', call_topic = ''algebra'',
            call_score = 1, call_now = ''t1''\<rparr>]))
     (''s1'', ''algebra'') = 1 \<and>
   returned (update_student_progress (\<lambda>x. ''?'') decimal3 (\<lambda>st. st = Commit) empty_db
      ''s1'' ''algebra'' 1 ''t1'') = Inl OperationalError \<and>
   stored (update_student_progress (\<lambda>x. ''?'') decimal3 (\<lambda>st. st = Commit) empty_db
      ''s1'' ''algebra'' 1 ''t1'') = empty_db"
proof -
  let ?calls = "[\<lparr>call_refuses = (\<lambda>st. False), call_student = ''s1'', call_topic = ''algebra'',
            call_score = 6 / 10, call_now = ''t1''\<rparr>,
         \<lparr>call_refuses = (\<lambda>st. False), call_student = ''s1'', call_topic = ''algebra'',
            call_score = 1, call_now = ''t1''\<rparr>]"
  have s: "session_count (fst (run_updates (\<lambda>x. ''?'') decimal3 empty_db ?calls)) (''s1'', ''algebra'') = 1"
    by (simp add: model_defs session_count_def)
  have e: "returned (update_student_progress (\<lambda>x. ''?'') decimal3 (\<lambda>st. st = Commit) empty_db
      ''s1'' ''algebra'' 1 ''t1'') = Inl OperationalError"
    by (simp add: model_defs)
  show ?thesis
    using attempts_match_sessions [of "\<lambda>x. ''?''" decimal3 ?calls "(''s1'', ''algebra'')"
        "\<lambda>st. st = Commit" empty_db "''s1''" "''algebra''" 1 "''t1''" OperationalError] s e
    by simp
qed

text \<open>
  Claim C7. A score strictly below \<open>0\<close> or strictly above \<open>1\<close> is rejected by the argument
  schema before the function runs: the call raises \<open>ValidationError\<close>, sends no statement
  and stores the tables unchanged. The scores \<open>0\<close> and \<open>1\<close> pass the schema: the tool runs
  the function, which starts with its read of the key.
\<close>

theorem score_validation:
  "(score < 0 \<or> 1 < score \<longrightarrow>
      update_student_progress fmt_2f fl refuses d student_id topic score now =
        \<lparr>statements = [], stored = d, returned = Inl ValidationError\<rparr>) \<and>
   (score = 0 \<or> score = 1 \<longrightarrow>
      UpdateStudentProgressInput score = Inr score \<and>
      update_student_progress fmt_2f fl refuses d student_id topic score now =
        update_student_progress_func fmt_2f fl refuses d student_id topic score now \<and>
      hd (statements (update_student_progress fmt_2f fl refuses d student_id topic score now)) =
        SelectProgress student_id (topic_key topic))"
  by (auto simp add: update_student_progress_def UpdateStudentProgressInput_def
        update_student_progress_func_def log_session_def execute_def
        apply_statement_def connect_def raised_def committed_def Let_def
      split: option.splits sum.splits if_splits prod.splits)

theorem score_validation_witness:
  "update_student_progress (\<lambda>x. ''?'') decimal3 (\<lambda>st. False) empty_db ''s1'' ''algebra'' (15 / 10) ''t1'' =
     \<lparr>statements = [], stored = empty_db, returned = Inl ValidationError\<rparr> \<and>
   update_student_progress (\<lambda>x. ''?'') decimal3 (\<lambda>st. False) empty_db ''s1'' ''algebra'' (- 1 / 10) ''t1'' =
     \<lparr>statements = [], stored = empty_db, returned = Inl ValidationError\<rparr> \<and>
   UpdateStudentProgressInput 0 = Inr 0 \<and>
   UpdateStudentProgressInput 1 = Inr 1 \<and>
   statements (update_student_progress (\<lambda>x. ''?'') decimal3 (\<lambda>st. False) empty_db ''s1'' ''algebra'' 0 ''t1'') =
     [SelectProgress ''s1'' ''algebra'', InsertProgress ''s1'' ''algebra'' 0 1 ''t1'',
      InsertSession ''s1_algebra_t1'' ''s1'' ''algebra'' 0 ''t1'', Commit]"
  using score_validation [of "15 / 10" "\<lambda>x. ''?''" decimal3 "\<lambda>st. False" empty_db "''s1''" "''algebra''" "''t1''"]
    score_validation [of "- 1 / 10" "\<lambda>x. ''?''" decimal3 "\<lambda>st. False" empty_db "''s1''" "''algebra''" "''t1''"]
    score_validation [of 0 "\<lambda>x. ''?''" decimal3 "\<lambda>st. False" empty_db "''s1''" "''algebra''" "''t1''"]
    score_validation [of 1 "\<lambda>x. ''?''" decimal3 "\<lambda>st. False" empty_db "''s1''" "''algebra''" "''t1''"]
  by (simp add: model_defs)



text \<open>
  Claim C10. \<open>get_student_progress\<close> never modifies either table: whatever it returns or
  raises, the stored tables are those of before the call, and the only statement it
  sends is the point read on \<open>(student_id, topic_key topic)\<close>.
\<close>

theorem get_student_progress_read_only:
  "stored (get_student_progress fmt_2f refuses d student_id topic) = d \<and>
   statements (get_student_progress fmt_2f refuses d student_id topic) =
     [SelectProgress student_id (topic_key topic)]"
  by (simp add: get_student_progress_def execute_select connect_def raised_def
      closed_uncommitted_def Let_def split: option.splits)

theorem get_student_progress_read_only_witness:
  "stored (get_student_progress (\<lambda>x. ''?'') (\<lambda>st. False) empty_db ''s1'' ''Linear Algebra'') = empty_db \<and>
   statements (get_student_progress (\<lambda>x. ''?'') (\<lambda>st. False) empty_db ''s1'' ''Linear Algebra'') =
     [SelectProgress ''s1'' ''linear_algebra'']"
  using get_student_progress_read_only [of "\<lambda>x. ''?''" "\<lambda>st. False" empty_db "''s1''" "''Linear Algebra''"]
  by (simp add: topic_key_def lower_def lower_char_def replace_space_def)

section \<open>Properties of the agent graph\<close>

lemma tools_not_END: "''tools'' \<noteq> END" "END \<noteq> ''tools''" "''agent'' \<noteq> END"
  by (simp_all add: END_def)

lemma router_empty: "messages state = [] \<Longrightarrow> router state = Inl IndexError"
  by (simp add: router_def)

lemma router_nonempty:
  "messages state \<noteq> [] \<Longrightarrow>
   router state =
     (case tool_calls (last (messages state)) of
        Some calls \<Rightarrow> if calls \<noteq> [] then Inr ''tools'' else Inr END
      | None \<Rightarrow> Inr END)"
  by (cases "messages state") (simp_all add: router_def)

lemma next_node_agent:
  "next_node build_graph ''agent'' state =
     (case router state of
        Inl e \<Rightarrow> Inl e
      | Inr r \<Rightarrow> if r = ''tools'' then Inr ''tools'' else if r = END then Inr END else Inl KeyError)"
  by (simp add: next_node_def build_graph_def split: sum.splits)

lemma next_node_tools: "next_node build_graph ''tools'' state = Inr ''agent''"
  by (simp add: next_node_def build_graph_def)

text \<open>
  Claim C2. On every state, \<open>router\<close> returns \<open>tools\<close> exactly when the state has a last
  message and that message carries at least one tool call, and returns \<open>END\<close> exactly when
  it has a last message that carries none (a message without the attribute included).
  Hence, in the graph of \<open>build_graph\<close>, a planner response without tool requests sends
  the run from \<open>agent\<close> to \<open>END\<close>, and \<open>invoke\<close> returns the history with that response
  appended under every recursion limit that exceeds the one node run of the cycle, that is
  every limit of at least 2 (the default 25 of \<open>run_agent\<close> included); a response with one
  or more requests sends it to \<open>tools\<close>; and from \<open>tools\<close> the run goes to \<open>agent\<close> whatever
  the state.
\<close>

theorem router_routes:
  "(router state = Inr ''tools'' \<longleftrightarrow>
      messages state \<noteq> [] \<and>
      (\<exists>calls. tool_calls (last (messages state)) = Some calls \<and> calls \<noteq> [])) \<and>
   (router state = Inr END \<longleftrightarrow>
      messages state \<noteq> [] \<and>
      \<not> (\<exists>calls. tool_calls (last (messages state)) = Some calls \<and> calls \<noteq> [])) \<and>
   (llm ([SystemMessage SYSTEM_PROMPT] @ messages state) = (content, []) \<longrightarrow>
      next_node build_graph ''agent''
        \<lparr>messages = add_messages (messages state) (messages (agent_node llm SYSTEM_PROMPT state))\<rparr> =
        Inr END \<and>
      invoke llm SYSTEM_PROMPT run_tool (Suc (Suc n)) state =
        Inr \<lparr>messages = messages state @ [AIMessage content []]\<rparr>) \<and>
   (llm ([SystemMessage SYSTEM_PROMPT] @ messages state) = (content, call # calls) \<longrightarrow>
      next_node build_graph ''agent''
        \<lparr>messages = add_messages (messages state) (messages (agent_node llm SYSTEM_PROMPT state))\<rparr> =
        Inr ''tools'') \<and>
   next_node build_graph ''tools'' state' = Inr ''agent''"
proof (intro conjI impI)
  show "router state = Inr ''tools'' \<longleftrightarrow>
      messages state \<noteq> [] \<and>
      (\<exists>calls. tool_calls (last (messages state)) = Some calls \<and> calls \<noteq> [])"
    by (cases "messages state = []")
      (auto simp add: router_empty router_nonempty tools_not_END split: option.splits)
  show "router state = Inr END \<longleftrightarrow>
      messages state \<noteq> [] \<and>
      \<not> (\<exists>calls. tool_calls (last (messages state)) = Some calls \<and> calls \<noteq> [])"
    by (cases "messages state = []")
      (auto simp add: router_empty router_nonempty tools_not_END split: option.splits)
  show "next_node build_graph ''tools'' state' = Inr ''agent''"
    by (rule next_node_tools)
next
  assume r: "llm ([SystemMessage SYSTEM_PROMPT] @ messages state) = (content, [])"
  let ?s = "\<lparr>messages = add_messages (messages state) (messages (agent_node llm SYSTEM_PROMPT state))\<rparr>"
  have m: "add_messages (messages state) (messages (agent_node llm SYSTEM_PROMPT state)) =
      messages state @ [AIMessage content []]"
    using r by (simp add: agent_node_def add_messages_def Let_def)
  have "router ?s = Inr END"
    using router_nonempty [of ?s] by (simp add: m)
  then show nx: "next_node build_graph ''agent'' ?s = Inr END"
    by (simp add: next_node_agent tools_not_END)
  show "invoke llm SYSTEM_PROMPT run_tool (Suc (Suc n)) state =
        Inr \<lparr>messages = messages state @ [AIMessage content []]\<rparr>"
    using nx m by (simp add: invoke_def build_graph_def run_node_def tools_not_END)
next
  assume r: "llm ([SystemMessage SYSTEM_PROMPT] @ messages state) = (content, call # calls)"
  let ?s = "\<lparr>messages = add_messages (messages state) (messages (agent_node llm SYSTEM_PROMPT state))\<rparr>"
  have m: "add_messages (messages state) (messages (agent_node llm SYSTEM_PROMPT state)) =
      messages state @ [AIMessage content (call # calls)]"
    using r by (simp add: agent_node_def add_messages_def Let_def)
  have "router ?s = Inr ''tools''"
    using router_nonempty [of ?s] by (simp add: m)
  then show "next_node build_graph ''agent'' ?s = Inr ''tools''"
    by (simp add: next_node_agent)
qed

theorem router_routes_witness:
  "router \<lparr>messages = [HumanMessage ''hi'',
                        AIMessage [] [ToolCall ''get_student_progress'' [] ''call_1'']]\<rparr> =
     Inr ''tools'' \<and>
   router \<lparr>messages = [HumanMessage ''hi'', AIMessage ''done'' []]\<rparr> = Inr END \<and>
   invoke (\<lambda>ms. (''done'', [])) ''prompt'' (\<lambda>c. ''result'') 2 \<lparr>messages = [HumanMessage ''hi'']\<rparr> =
     Inr \<lparr>messages = [HumanMessage ''hi'', AIMessage ''done'' []]\<rparr>"
  using router_routes [where state = "\<lparr>messages = [HumanMessage ''hi'',
                        AIMessage [] [ToolCall ''get_student_progress'' [] ''call_1'']]\<rparr>"]
    router_routes [where state = "\<lparr>messages = [HumanMessage ''hi'', AIMessage ''done'' []]\<rparr>"]
    router_routes [where state = "\<lparr>messages = [HumanMessage ''hi'']\<rparr>"
      and llm = "\<lambda>ms. (''done'', [])" and content = "''done''" and SYSTEM_PROMPT = "''prompt''"
      and run_tool = "\<lambda>c. ''result''" and n = 0]
  by (simp add: numeral_2_eq_2)

text \<open>
  The recursion limit has to exceed the number of node runs: the one-step cycle raises
  \<open>GraphRecursionError\<close> under the limit 1, and the limit 0 is refused before any node runs.
\<close>

lemma invoke_limit_zero: "invoke llm SYSTEM_PROMPT run_tool 0 state = Inl ValueError"
  by (simp add: invoke_def)

lemma invoke_limit_one:
  assumes "llm ([SystemMessage SYSTEM_PROMPT] @ messages state) = (content, [])"
  shows "invoke llm SYSTEM_PROMPT run_tool (Suc 0) state = Inl GraphRecursionError"
proof -
  let ?s = "\<lparr>messages = add_messages (messages state) (messages (agent_node llm SYSTEM_PROMPT state))\<rparr>"
  have m: "add_messages (messages state) (messages (agent_node llm SYSTEM_PROMPT state)) =
      messages state @ [AIMessage content []]"
    using assms by (simp add: agent_node_def add_messages_def Let_def)
  have "router ?s = Inr END"
    using router_nonempty [of ?s] by (simp add: m)
  then have "next_node build_graph ''agent'' ?s = Inr END"
    by (simp add: next_node_agent tools_not_END)
  then show ?thesis
    using m by (simp add: invoke_def build_graph_def run_node_def tools_not_END)
qed

text \<open>
  A run with one tool request: \<open>agent\<close>, \<open>tools\<close>, \<open>agent\<close>, then \<open>END\<close>; it needs a limit of at
  least 4.
\<close>

lemma invoke_loop_limit_three:
  "invoke (\<lambda>ms. if length ms < 3
                  then ([], [ToolCall ''get_student_progress'' [] ''call_1''])
                  else (''done'', []))
     ''prompt'' (\<lambda>c. ''result'') 3 \<lparr>messages = [HumanMessage ''hi'']\<rparr> =
   Inl GraphRecursionError"
  by (simp add: invoke_def build_graph_def run_node_def agent_node_def tool_node_def
      add_messages_def next_node_def router_def END_def Let_def eval_nat_numeral)

lemma invoke_loop_example:
  "invoke (\<lambda>ms. if length ms < 3
                  then ([], [ToolCall ''get_student_progress'' [] ''call_1''])
                  else (''done'', []))
     ''prompt'' (\<lambda>c. ''result'') 25 \<lparr>messages = [HumanMessage ''hi'']\<rparr> =
   Inr \<lparr>messages = [HumanMessage ''hi'',
                      AIMessage [] [ToolCall ''get_student_progress'' [] ''call_1''],
                      ToolMessage ''result'' ''call_1'',
                      AIMessage ''done'' []]\<rparr>"
  by (simp add: invoke_def build_graph_def run_node_def agent_node_def tool_node_def
      add_messages_def next_node_def router_def END_def Let_def eval_nat_numeral)

section \<open>Properties of content retrieval\<close>

text \<open>
  Claim C9. For arguments that the schema accepts (a content type among \<open>explanation\<close>,
  \<open>prerequisites\<close>, \<open>practice\<close> and a difficulty among \<open>beginner\<close>, \<open>intermediate\<close>,
  \<open>advanced\<close>), \<open>retrieve_content\<close> embeds exactly one text, \<open>topic content_type difficulty\<close>
  (joined by spaces), and its first query carries that embedding and the filter that
  requires the topic key, the content type and the difficulty together. When it yields no
  document (an empty result list, or an empty list of documents for the one embedding),
  exactly one more query is sent, with the same embedding and no filter; otherwise none.
  When the unfiltered query answers the embedding with an empty list of documents too,
  the tool returns the \<open>No content found\<close> message and does not raise. For any other content
  type or difficulty the tool raises \<open>ValidationError\<close>, embeds nothing and sends no query.
  The topic key of the filter is the value that \<open>build_metadata\<close> stores under \<open>topic\<close> at
  ingestion.
\<close>

theorem retrieve_content_fallback:
  "(content_type \<in> {''explanation'', ''prerequisites'', ''practice''} \<and>
    difficulty \<in> {''beginner'', ''intermediate'', ''advanced''} \<longrightarrow>
    (let e = embed_fn (topic @ '' '' @ content_type @ '' '' @ difficulty);
         filtered = (e, n_results,
                     Some (And [Eq ''topic'' (topic_key topic),
                                Eq ''content_type'' content_type,
                                Eq ''difficulty'' difficulty]));
         unfiltered = (e, n_results, None);
         r = retrieve_content embed_fn collection_query topic content_type difficulty n_results
     in embedded r = [topic @ '' '' @ content_type @ '' '' @ difficulty] \<and>
        hd (queries r) = filtered \<and>
        (documents (collection_query filtered) = [] \<or>
         hd (documents (collection_query filtered)) = [] \<longrightarrow>
           queries r = [filtered, unfiltered]) \<and>
        (documents (collection_query filtered) \<noteq> [] \<and>
         hd (documents (collection_query filtered)) \<noteq> [] \<longrightarrow>
           queries r = [filtered]) \<and>
        ((documents (collection_query filtered) = [] \<or>
          hd (documents (collection_query filtered)) = []) \<and>
         documents (collection_query unfiltered) \<noteq> [] \<and>
         hd (documents (collection_query unfiltered)) = [] \<and>
         metadatas (collection_query unfiltered) \<noteq> [] \<longrightarrow>
           answer r =
             Inr (''No content found for topic='' @ quote @ topic @ quote @
                  '', type='' @ quote @ content_type @ quote @
                  '', difficulty='' @ quote @ difficulty @ quote @ ''.'')))) \<and>
   (\<not> (content_type \<in> {''explanation'', ''prerequisites'', ''practice''} \<and>
       difficulty \<in> {''beginner'', ''intermediate'', ''advanced''}) \<longrightarrow>
    retrieve_content embed_fn collection_query topic content_type difficulty n_results =
      \<lparr>embedded = [], queries = [], answer = Inl ValidationError\<rparr>) \<and>
   map_of (build_metadata h now chunk_text index page source_file topic difficulty') ''topic'' =
     Some (topic_key topic)"
proof (intro conjI impI)
  assume v: "content_type \<in> {''explanation'', ''prerequisites'', ''practice''} \<and>
    difficulty \<in> {''beginner'', ''intermediate'', ''advanced''}"
  then have "retrieve_content embed_fn collection_query topic content_type difficulty n_results =
      retrieve_content_func embed_fn collection_query topic content_type difficulty n_results"
    unfolding retrieve_content_def RetrieveContentInput_def by simp
  then show "let e = embed_fn (topic @ '' '' @ content_type @ '' '' @ difficulty);
         filtered = (e, n_results,
                     Some (And [Eq ''topic'' (topic_key topic),
                                Eq ''content_type'' content_type,
                                Eq ''difficulty'' difficulty]));
         unfiltered = (e, n_results, None);
         r = retrieve_content embed_fn collection_query topic content_type difficulty n_results
     in embedded r = [topic @ '' '' @ content_type @ '' '' @ difficulty] \<and>
        hd (queries r) = filtered \<and>
        (documents (collection_query filtered) = [] \<or>
         hd (documents (collection_query filtered)) = [] \<longrightarrow>
           queries r = [filtered, unfiltered]) \<and>
        (documents (collection_query filtered) \<noteq> [] \<and>
         hd (documents (collection_query filtered)) \<noteq> [] \<longrightarrow>
           queries r = [filtered]) \<and>
        ((documents (collection_query filtered) = [] \<or>
          hd (documents (collection_query filtered)) = []) \<and>
         documents (collection_query unfiltered) \<noteq> [] \<and>
         hd (documents (collection_query unfiltered)) = [] \<and>
         metadatas (collection_query unfiltered) \<noteq> [] \<longrightarrow>
           answer r =
             Inr (''No content found for topic='' @ quote @ topic @ quote @
                  '', type='' @ quote @ content_type @ quote @
                  '', difficulty='' @ quote @ difficulty @ quote @ ''.''))"
    by (auto simp add: retrieve_content_func_def Let_def split: list.splits)
next
  assume "\<not> (content_type \<in> {''explanation'', ''prerequisites'', ''practice''} \<and>
       difficulty \<in> {''beginner'', ''intermediate'', ''advanced''})"
  then show "retrieve_content embed_fn collection_query topic content_type difficulty n_results =
      \<lparr>embedded = [], queries = [], answer = Inl ValidationError\<rparr>"
    unfolding retrieve_content_def RetrieveContentInput_def by auto
next
  show "map_of (build_metadata h now chunk_text index page source_file topic difficulty') ''topic'' =
     Some (topic_key topic)"
    by (simp add: build_metadata_def Let_def)
qed

theorem retrieve_content_fallback_witness:
  "embedded (retrieve_content (\<lambda>s. [real (length s)])
              (\<lambda>q. \<lparr>documents = [[]], metadatas = [[]]\<rparr>)
              ''Linear Algebra'' ''practice'' ''beginner'' 3) =
     [''Linear Algebra practice beginner''] \<and>
   queries (retrieve_content (\<lambda>s. [real (length s)])
              (\<lambda>q. \<lparr>documents = [[]], metadatas = [[]]\<rparr>)
              ''Linear Algebra'' ''practice'' ''beginner'' 3) =
     [([32], 3, Some (And [Eq ''topic'' ''linear_algebra'', Eq ''content_type'' ''practice'',
                            Eq ''difficulty'' ''beginner''])),
      ([32], 3, None)] \<and>
   answer (retrieve_content (\<lambda>s. [real (length s)])
              (\<lambda>q. \<lparr>documents = [[]], metadatas = [[]]\<rparr>)
              ''Linear Algebra'' ''practice'' ''beginner'' 3) =
     Inr (''No content found for topic='' @ quote @ ''Linear Algebra'' @ quote @
          '', type='' @ quote @ ''practice'' @ quote @
          '', difficulty='' @ quote @ ''beginner'' @ quote @ ''.'') \<and>
   retrieve_content (\<lambda>s. [real (length s)])
              (\<lambda>q. \<lparr>documents = [[]], metadatas = [[]]\<rparr>)
              ''Linear Algebra'' ''quiz'' ''beginner'' 3 =
     \<lparr>embedded = [], queries = [], answer = Inl ValidationError\<rparr>"
  using retrieve_content_fallback [where embed_fn = "\<lambda>s. [real (length s)]"
      and topic = "''Linear Algebra''" and content_type = "''practice''"
      and difficulty = "''beginner''" and n_results = 3
      and collection_query = "\<lambda>q. \<lparr>documents = [[]], metadatas = [[]]\<rparr>"]
    retrieve_content_fallback [where embed_fn = "\<lambda>s. [real (length s)]"
      and topic = "''Linear Algebra''" and content_type = "''quiz''"
      and difficulty = "''beginner''" and n_results = 3
      and collection_query = "\<lambda>q. \<lparr>documents = [[]], metadatas = [[]]\<rparr>"]
  by (simp add: Let_def topic_key_def lower_def lower_char_def replace_space_def)

section \<open>Properties of the ingestion pipeline\<close>

lemma build_metadata_doc_id:
  "map_of (build_metadata h now chunk_text index page source_file topic difficulty) ''doc_id'' =
     Some (md5_hexdigest h (source_file @ ''_'' @ str_int index @ ''_'' @ take 60 chunk_text))"
  by (simp add: build_metadata_def Let_def)

lemma doc_ids_enrich_from:
  "doc_ids (enrich_from h clock pdf_path topic difficulty k cs) =
     Inr (map (\<lambda>c. md5_hexdigest h
                      (pdf_path @ ''_'' @ str_int (chunk_index c) @ ''_'' @ take 60 (text' c))) cs)"
  by (induction cs arbitrary: k) (simp_all add: enrich_chunk_def build_metadata_doc_id)

lemma text_enrich_from:
  "map text' (enrich_from h clock pdf_path topic difficulty k cs) = map text' cs"
  by (induction cs arbitrary: k) (simp_all add: enrich_chunk_def)

text \<open>
  Claim C4. The \<open>doc_id\<close> of \<open>build_metadata\<close> is the MD5 hex digest of
  \<open>source_file\<close>, an underscore, the decimal chunk index, an underscore and the first 60
  characters of the chunk text. It is the same for any topic, difficulty, page, clock
  value and regular-expression results, and for any two chunk texts that agree on their
  first 60 characters. \<open>store_in_chromadb\<close> passes these ids, in the order of the chunks,
  as the \<open>ids\<close> of \<open>collection.add\<close>, beside the chunk texts as documents.
\<close>

theorem doc_id_deterministic:
  "map_of (build_metadata h now chunk_text index page source_file topic difficulty) ''doc_id'' =
     Some (md5_hexdigest h (source_file @ ''_'' @ str_int index @ ''_'' @ take 60 chunk_text)) \<and>
   (md5_hexdigest h' = md5_hexdigest h \<and> take 60 chunk_text' = take 60 chunk_text \<longrightarrow>
      map_of (build_metadata h' now' chunk_text' index page' source_file topic' difficulty') ''doc_id'' =
      map_of (build_metadata h now chunk_text index page source_file topic difficulty) ''doc_id'') \<and>
   (\<exists>args. store_in_chromadb (enrich h clock source_file topic difficulty cs) embeddings = Inr args \<and>
      add_documents args = map text' cs \<and>
      add_ids args =
        map (\<lambda>c. md5_hexdigest h
                    (source_file @ ''_'' @ str_int (chunk_index c) @ ''_'' @ take 60 (text' c))) cs)"
  by (simp add: build_metadata_doc_id store_in_chromadb_def enrich_def doc_ids_enrich_from
      text_enrich_from)

theorem doc_id_deterministic_witness:
  "map_of (build_metadata \<lparr>md5_hexdigest = (\<lambda>s. s), re_search_I = (\<lambda>p s. False),
                           basename = (\<lambda>s. s)\<rparr>
             ''t1'' ''Photosynthesis'' 0 1 ''book.pdf'' ''Biology'' ''beginner'') ''doc_id'' =
     Some ''book.pdf_0_Photosynthesis'' \<and>
   map_of (build_metadata \<lparr>md5_hexdigest = (\<lambda>s. s), re_search_I = (\<lambda>p s. True),
                           basename = (\<lambda>s. s)\<rparr>
             ''t2'' ''Photosynthesis'' 0 7 ''book.pdf'' ''Plants'' ''advanced'') ''doc_id'' =
     Some ''book.pdf_0_Photosynthesis''"
  using doc_id_deterministic [where h = "\<lparr>md5_hexdigest = (\<lambda>s. s), re_search_I = (\<lambda>p s. False),
                           basename = (\<lambda>s. s)\<rparr>"
      and h' = "\<lparr>md5_hexdigest = (\<lambda>s. s), re_search_I = (\<lambda>p s. True),
                           basename = (\<lambda>s. s)\<rparr>"
      and now = "''t1''" and now' = "''t2''" and chunk_text = "''Photosynthesis''"
      and chunk_text' = "''Photosynthesis''" and index = 0 and page = 1 and page' = 7
      and source_file = "''book.pdf''" and topic = "''Biology''" and topic' = "''Plants''"
      and difficulty = "''beginner''" and difficulty' = "''advanced''" and cs = "[]"]
  by (simp add: str_int_def str_nat.simps)

text \<open>
  Facts about \<open>dropWhile\<close> and slices, for \<open>strip\<close> and \<open>current_chunk[-overlap:]\<close> on plain and
  on annotated text.
\<close>

lemma dropWhile_append_keep:
  "ys \<noteq> [] \<Longrightarrow> \<not> P (hd ys) \<Longrightarrow> dropWhile P (xs @ ys) = dropWhile P xs @ ys"
  by (induction xs) (auto simp add: neq_Nil_conv)

lemma dropWhile_all: "\<forall>x \<in> set xs. P x \<Longrightarrow> dropWhile P (xs @ ys) = dropWhile P ys"
  by (induction xs) auto

lemma dropWhile_none: "ys \<noteq> [] \<Longrightarrow> \<not> P (hd ys) \<Longrightarrow> dropWhile P ys = ys"
  by (cases ys) auto

lemma strip_carried:
  assumes "p \<noteq> []" and "\<not> P (hd p)" and "\<not> P (last p)" and "\<forall>x \<in> set sep. P x"
  shows "dropWhile P (rev (dropWhile P (rev (ovt @ p @ sep)))) = dropWhile P ovt @ p"
proof -
  have "dropWhile P (rev (ovt @ p @ sep)) = dropWhile P (rev p @ rev ovt)"
    using assms(4) by (simp add: dropWhile_all)
  also have "\<dots> = rev p @ rev ovt"
    using assms(1,3) by (intro dropWhile_none) (simp_all add: hd_rev)
  finally have "rev (dropWhile P (rev (ovt @ p @ sep))) = ovt @ p"
    by simp
  then show ?thesis
    using assms(1,2) by (simp add: dropWhile_append_keep)
qed


lemma last_dropWhile:
  "xs \<noteq> [] \<Longrightarrow> \<not> P (last xs) \<Longrightarrow> dropWhile P xs \<noteq> [] \<and> last (dropWhile P xs) = last xs"
  by (induction xs) (auto split: if_splits)

lemma isspace_newline: "isspace (CHR 0x0A)"
  by (simp add: isspace_def)

lemma length_strip_le: "length (strip s) \<le> length s"
  unfolding strip_def
  by (metis length_dropWhile_le length_rev order_trans)

lemma strip_separator: "strip (body @ newline @ newline) = strip body"
proof -
  have "dropWhile isspace (rev (body @ newline @ newline)) = dropWhile isspace (rev body)"
    by (simp add: newline_def isspace_newline)
  then show ?thesis
    by (simp add: strip_def)
qed

lemma length_slice_from_neg:
  "0 < overlap \<Longrightarrow> int (length s) > overlap \<Longrightarrow> int (length (slice_from s (- overlap))) = overlap"
  by (simp add: slice_from_def)

lemma strip_head_not_space: "strip s \<noteq> [] \<Longrightarrow> \<not> isspace (hd (strip s))"
  unfolding strip_def by (rule hd_dropWhile)

lemma strip_last_not_space:
  assumes "strip s \<noteq> []"
  shows "\<not> isspace (last (strip s))"
proof -
  let ?r = "dropWhile isspace (rev s)"
  have ne: "?r \<noteq> []"
  proof
    assume e: "?r = []"
    have "strip s = dropWhile isspace (rev ?r)"
      by (simp only: strip_def)
    also have "\<dots> = []"
      unfolding e by simp
    finally show False
      using assms by simp
  qed
  then have "\<not> isspace (hd ?r)"
    by (rule hd_dropWhile)
  then have "\<not> isspace (last (rev ?r))"
    using ne by (simp add: last_rev)
  then show ?thesis
    using ne last_dropWhile [of "rev ?r" isspace] by (simp add: strip_def)
qed

lemma seal_fits:
  assumes "int (length body) \<le> m \<or>
          (\<exists>ovt p. body = ovt @ p \<and> int (length ovt) \<le> ov \<and> p \<in> P \<and> p \<noteq> [] \<and>
             \<not> isspace (hd p) \<and> \<not> isspace (last p))"
  shows "fits m ov P (strip (body @ newline @ newline))"
  using assms
proof
  assume "int (length body) \<le> m"
  then have "int (length (strip body)) \<le> m"
    using length_strip_le [of body] by linarith
  then show ?thesis
    by (simp add: fits_def strip_separator)
next
  assume "\<exists>ovt p. body = ovt @ p \<and> int (length ovt) \<le> ov \<and> p \<in> P \<and> p \<noteq> [] \<and>
             \<not> isspace (hd p) \<and> \<not> isspace (last p)"
  then obtain ovt p where b: "body = ovt @ p" and l: "int (length ovt) \<le> ov" and p: "p \<in> P"
    and ne: "p \<noteq> []" and h: "\<not> isspace (hd p)" and e: "\<not> isspace (last p)"
    by blast
  have "strip (ovt @ p @ []) = dropWhile isspace ovt @ p"
    unfolding strip_def by (rule strip_carried [OF ne h e]) simp
  moreover have "int (length (dropWhile isspace ovt)) \<le> ov"
    using l length_dropWhile_le [of isspace ovt] by linarith
  ultimately show ?thesis
    using p unfolding fits_def strip_separator b
    by (intro disjI2 exI [of _ "dropWhile isspace ovt"] exI [of _ p]) simp
qed

lemma add_paragraph_inv:
  assumes inv: "chunker_inv m ov P st"
    and par: "strip raw \<noteq> [] \<longrightarrow> strip raw \<in> P"
    and pos: "0 < ov"
  shows "chunker_inv m ov P (add_paragraph m ov st raw)"
proof (cases "strip raw = []")
  case True
  then show ?thesis using inv by (simp add: add_paragraph_def)
next
  case False
  then have inP: "strip raw \<in> P" using par by simp
  have sealed: "\<forall>c \<in> set (chunks st). fits m ov P (text' c)"
    using inv by (simp add: chunker_inv_def)
  show ?thesis
  proof (cases "int (length (current_chunk st)) + int (length (strip raw)) \<le> m")
    case True
    have "\<exists>body. current_chunk st @ strip raw @ newline @ newline = body @ newline @ newline \<and>
            (int (length body) \<le> m \<or>
             (\<exists>ovt p. body = ovt @ p \<and> int (length ovt) \<le> ov \<and> p \<in> P \<and> p \<noteq> [] \<and>
                \<not> isspace (hd p) \<and> \<not> isspace (last p)))"
      using True by (intro exI [of _ "current_chunk st @ strip raw"]) simp
    then show ?thesis
      using False True sealed by (simp add: add_paragraph_def chunker_inv_def Let_def)
  next
    case over: False
    define overlap_text where
      "overlap_text = (if int (length (current_chunk st)) > ov
                       then slice_from (current_chunk st) (- ov) else current_chunk st)"
    have len: "int (length overlap_text) \<le> ov"
      using pos by (simp add: overlap_text_def length_slice_from_neg)
    have "\<exists>ovt p. overlap_text @ strip raw = ovt @ p \<and> int (length ovt) \<le> ov \<and> p \<in> P \<and>
            p \<noteq> [] \<and> \<not> isspace (hd p) \<and> \<not> isspace (last p)"
      using len inP False strip_head_not_space [OF False] strip_last_not_space [OF False]
      by (intro exI [of _ overlap_text] exI [of _ "strip raw"]) simp
    then have cur: "\<exists>body. overlap_text @ strip raw @ newline @ newline = body @ newline @ newline \<and>
            (int (length body) \<le> m \<or>
             (\<exists>ovt p. body = ovt @ p \<and> int (length ovt) \<le> ov \<and> p \<in> P \<and> p \<noteq> [] \<and>
                \<not> isspace (hd p) \<and> \<not> isspace (last p)))"
      by (intro exI [of _ "overlap_text @ strip raw"]) simp
    have new: "current_chunk st \<noteq> [] \<Longrightarrow> fits m ov P (strip (current_chunk st))"
    proof -
      assume "current_chunk st \<noteq> []"
      then obtain body where b: "current_chunk st = body @ newline @ newline"
        and wb: "int (length body) \<le> m \<or>
          (\<exists>ovt p. body = ovt @ p \<and> int (length ovt) \<le> ov \<and> p \<in> P \<and> p \<noteq> [] \<and>
             \<not> isspace (hd p) \<and> \<not> isspace (last p))"
        using inv unfolding chunker_inv_def by blast
      show ?thesis
        unfolding b by (rule seal_fits [OF wb])
    qed
    show ?thesis
      using False over sealed cur new
      by (simp add: add_paragraph_def chunker_inv_def Let_def overlap_text_def)
  qed
qed

lemma foldl_add_paragraph_inv:
  "chunker_inv m ov P st \<Longrightarrow> \<forall>raw \<in> set raws. strip raw \<noteq> [] \<longrightarrow> strip raw \<in> P \<Longrightarrow> 0 < ov \<Longrightarrow>
   chunker_inv m ov P (foldl (add_paragraph m ov) st raws)"
  by (induction raws arbitrary: st) (simp_all add: add_paragraph_inv)

lemma add_segment_inv:
  assumes "chunker_inv m ov P st"
    and "page_match segment = None \<longrightarrow>
           (\<forall>raw \<in> set (split_paragraphs segment). strip raw \<noteq> [] \<longrightarrow> strip raw \<in> P)"
    and "0 < ov"
  shows "chunker_inv m ov P (add_segment m ov st segment)"
proof (cases "page_match segment")
  case None
  then show ?thesis
    using assms by (simp add: add_segment_def foldl_add_paragraph_inv)
next
  case (Some n)
  then show ?thesis
    using assms(1) by (simp add: add_segment_def chunker_inv_def)
qed

lemma foldl_add_segment_inv:
  "chunker_inv m ov P st \<Longrightarrow>
   \<forall>segment \<in> set segments. page_match segment = None \<longrightarrow>
      (\<forall>raw \<in> set (split_paragraphs segment). strip raw \<noteq> [] \<longrightarrow> strip raw \<in> P) \<Longrightarrow>
   0 < ov \<Longrightarrow>
   chunker_inv m ov P (foldl (add_segment m ov) st segments)"
  by (induction segments arbitrary: st) (simp_all add: add_segment_inv)

lemma init_chunker_inv: "chunker_inv m ov P init_chunker"
  by (simp add: chunker_inv_def init_chunker_def)

lemma paragraphs_member:
  "segment \<in> set (re_split_pages txt) \<Longrightarrow> page_match segment = None \<Longrightarrow>
   raw \<in> set (split_paragraphs segment) \<Longrightarrow> strip raw \<noteq> [] \<Longrightarrow>
   strip raw \<in> set (paragraphs txt)"
  by (auto simp add: paragraphs_def)

text \<open>
  The text \<open>aaaaaa\<close>, blank line, \<open>bbbbbbbb\<close> with \<open>max_chunk_size = 10\<close> and
  \<open>overlap = 3\<close>: the second paragraph overflows, the buffer \<open>aaaaaa\<close> with its separator
  is sealed, and the next buffer starts with the last three characters of the sealed
  buffer, \<open>a\<close> and the two newlines.
\<close>

lemma two_paragraphs_chunks:
  "semantic_chunk (''aaaaaa'' @ newline @ newline @ ''bbbbbbbb'') 10 3 =
     [\<lparr>text' = ''aaaaaa'', chunk_index = 0, start_page = 1\<rparr>,
      \<lparr>text' = ''a'' @ newline @ newline @ ''bbbbbbbb'', chunk_index = 1, start_page = 1\<rparr>]"
  by code_simp

lemma two_paragraphs_paragraphs:
  "paragraphs (''aaaaaa'' @ newline @ newline @ ''bbbbbbbb'') = [''aaaaaa'', ''bbbbbbbb'']"
  by code_simp

text \<open>
  Claim C5 as stated fails: the second chunk has 11 characters, over the cap of 10, and
  no paragraph of the text is longer than 10 (even without asking that the oversized
  paragraph be in the chunk).
\<close>

theorem chunk_cap_counterexample:
  "\<not> (\<forall>c \<in> set (semantic_chunk (''aaaaaa'' @ newline @ newline @ ''bbbbbbbb'') 10 3).
         int (length (text' c)) \<le> 10 \<or>
         (\<exists>p \<in> set (paragraphs (''aaaaaa'' @ newline @ newline @ ''bbbbbbbb'')). 10 < int (length p)))"
  unfolding two_paragraphs_chunks two_paragraphs_paragraphs by (simp add: newline_def)

text \<open>
  Claim C5, amended. For a positive \<open>overlap\<close>, every chunk of \<open>semantic_chunk\<close> has at most
  \<open>max_chunk_size\<close> characters, or its text is carried overlap text of at most \<open>overlap\<close>
  characters followed by exactly one paragraph of the input: only a chunk that holds a
  single paragraph after the carried overlap may be over the cap, and it is over the cap
  by no more than the carried characters and what that paragraph itself has over it.
\<close>

theorem chunk_length_bound:
  assumes "0 < overlap"
  shows "\<forall>c \<in> set (semantic_chunk txt max_chunk_size overlap).
           int (length (text' c)) \<le> max_chunk_size \<or>
           (\<exists>carried p. text' c = carried @ p \<and> int (length carried) \<le> overlap \<and>
              p \<in> set (paragraphs txt))"
proof -
  let ?P = "set (paragraphs txt)"
  let ?st = "foldl (add_segment max_chunk_size overlap) init_chunker (re_split_pages txt)"
  have inv: "chunker_inv max_chunk_size overlap ?P ?st"
    by (rule foldl_add_segment_inv [OF init_chunker_inv _ assms])
      (simp add: paragraphs_member)
  have sealed: "\<forall>c \<in> set (chunks ?st). fits max_chunk_size overlap ?P (text' c)"
    using inv by (simp add: chunker_inv_def)
  have final: "strip (current_chunk ?st) \<noteq> [] \<Longrightarrow>
               fits max_chunk_size overlap ?P (strip (current_chunk ?st))"
  proof -
    assume "strip (current_chunk ?st) \<noteq> []"
    then have "current_chunk ?st \<noteq> []"
      by (auto simp add: strip_def)
    then obtain body where b: "current_chunk ?st = body @ newline @ newline"
      and wb: "int (length body) \<le> max_chunk_size \<or>
          (\<exists>ovt p. body = ovt @ p \<and> int (length ovt) \<le> overlap \<and> p \<in> ?P \<and> p \<noteq> [] \<and>
             \<not> isspace (hd p) \<and> \<not> isspace (last p))"
      using inv unfolding chunker_inv_def by blast
    show ?thesis
      unfolding b by (rule seal_fits [OF wb])
  qed
  have "\<forall>c \<in> set (semantic_chunk txt max_chunk_size overlap).
          fits max_chunk_size overlap ?P (text' c)"
    using sealed final by (auto simp add: semantic_chunk_def Let_def)
  then show ?thesis
    unfolding fits_def .
qed

theorem chunk_length_bound_witness:
  "\<exists>c \<in> set (semantic_chunk (''aaaaaa'' @ newline @ newline @ ''bbbbbbbb'') 10 3).
      10 < int (length (text' c)) \<and>
      (\<exists>carried p. text' c = carried @ p \<and> int (length carried) \<le> 3 \<and>
         p \<in> set (paragraphs (''aaaaaa'' @ newline @ newline @ ''bbbbbbbb'')))"
proof -
  let ?txt = "''aaaaaa'' @ newline @ newline @ ''bbbbbbbb''"
  let ?c = "\<lparr>text' = ''a'' @ newline @ newline @ ''bbbbbbbb'', chunk_index = 1, start_page = 1\<rparr>"
  have pos: "(0::int) < 3" by simp
  have "?c \<in> set (semantic_chunk ?txt 10 3)"
    unfolding two_paragraphs_chunks by simp
  with chunk_length_bound [OF pos, of ?txt 10]
  have "int (length (text' ?c)) \<le> 10 \<or>
        (\<exists>carried p. text' ?c = carried @ p \<and> int (length carried) \<le> 3 \<and>
           p \<in> set (paragraphs ?txt))"
    by (rule bspec)
  moreover have "\<not> int (length (text' ?c)) \<le> 10"
    by (simp add: newline_def)
  ultimately have "\<exists>carried p. text' ?c = carried @ p \<and> int (length carried) \<le> 3 \<and>
           p \<in> set (paragraphs ?txt)"
    by blast
  then show ?thesis
    unfolding two_paragraphs_chunks by (simp add: newline_def)
qed




































end
